theory Spec2Isabelle
  imports Main "HOL-Library.Multiset"
begin

section \<open>JavaScript values and objects\<close>

text \<open>
  The back end is untyped JavaScript: a request body, an update payload and the argument
  of every data function may hold any value. \<open>JNum\<close> carries an integer only, since no
  modelled function looks at a number beyond its type; \<open>JObject\<close> stands for every array
  and nested object. A string is a list of code units (those below 256).
\<close>

datatype jsvalue = Undefined | Null | JBool bool | JNum int | JStr string | JObject

type_synonym jsobject = "(string \<times> jsvalue) list"

text \<open>Property access \<^verbatim>\<open>obj.key\<close>: a missing key reads as \<^verbatim>\<open>undefined\<close>.\<close>

definition property :: "jsobject \<Rightarrow> string \<Rightarrow> jsvalue" where
  "property obj key = (case map_of obj key of None \<Rightarrow> Undefined | Some v \<Rightarrow> v)"

text \<open>The truthiness test of \<^verbatim>\<open>if (v)\<close> and \<^verbatim>\<open>v ? a : b\<close>.\<close>

fun truthy :: "jsvalue \<Rightarrow> bool" where
  "truthy Undefined = False"
| "truthy Null = False"
| "truthy (JBool b) = b"
| "truthy (JNum n) = (n \<noteq> 0)"
| "truthy (JStr s) = (s \<noteq> [])"
| "truthy JObject = True"

text \<open>\<^verbatim>\<open>String.prototype.trim\<close> on the code units below 256.\<close>

definition isWhitespace :: "char \<Rightarrow> bool" where
  "isWhitespace c =
     (c \<in> set [CHR 0x09, CHR 0x0A, CHR 0x0B, CHR 0x0C, CHR 0x0D, CHR 0x20, CHR 0xA0])"

definition trim :: "string \<Rightarrow> string" where
  "trim s = rev (dropWhile isWhitespace (rev (dropWhile isWhitespace s)))"


section \<open>validation.js\<close>

text \<open>
  Every \<^verbatim>\<open>throw new Error(msg)\<close> of the data layer is one constructor; the source's
  message is given beside it.
\<close>

datatype error =
    InvalidId string          \<comment> \<open>\<^verbatim>\<open>Invalid <what> ID\<close>\<close>
  | Required string           \<comment> \<open>\<^verbatim>\<open><field> is required\<close>\<close>
  | MustBeString string       \<comment> \<open>\<^verbatim>\<open><field> must be a string\<close>\<close>
  | TooShort string nat       \<comment> \<open>\<^verbatim>\<open><field> must be at least <n> character(s)\<close>\<close>
  | TooLong string nat        \<comment> \<open>\<^verbatim>\<open><field> must not exceed <n> characters\<close>\<close>
  | MustBeBoolean string      \<comment> \<open>\<^verbatim>\<open><field> must be a boolean\<close>\<close>
  | NoUpdates                 \<comment> \<open>\<^verbatim>\<open>No updates provided\<close>\<close>
  | CannotUpdate string       \<comment> \<open>\<^verbatim>\<open>Cannot update field: <key>\<close>\<close>
  | NotFound string           \<comment> \<open>\<^verbatim>\<open><Entity> not found\<close>\<close>
  | FailedToCreate string     \<comment> \<open>\<^verbatim>\<open>Failed to create <entity>\<close>\<close>

text \<open>
  The error kinds of the specification's taxonomy, for the errors above: a missing
  entity is \<open>NotFoundKind\<close>, an insertion the storage layer did not acknowledge is
  \<open>UnavailableKind\<close>, every validation error is \<open>InvalidInput\<close>.
\<close>

datatype kind = InvalidInput | NotFoundKind | UnavailableKind

fun kindOf :: "error \<Rightarrow> kind" where
  "kindOf (NotFound _) = NotFoundKind"
| "kindOf (FailedToCreate _) = UnavailableKind"
| "kindOf _ = InvalidInput"

definition isHexDigit :: "char \<Rightarrow> bool" where
  "isHexDigit c = (c \<in> set ''0123456789abcdef'')"

text \<open>
  \<^verbatim>\<open>isValidObjectId\<close>: a falsy value is rejected; otherwise the value must be accepted by
  the driver's \<^verbatim>\<open>ObjectId.isValid\<close> and be printed back unchanged by
  \<^verbatim>\<open>String(new ObjectId(id))\<close>. The driver prints 24 lower-case hexadecimal digits, so
  among the values of \<open>jsvalue\<close> exactly the strings of that shape pass.
\<close>

fun isValidObjectId :: "jsvalue \<Rightarrow> bool" where
  "isValidObjectId (JStr s) = (length s = 24 \<and> list_all isHexDigit s)"
| "isValidObjectId _ = False"

text \<open>
  \<^verbatim>\<open>new ObjectId(id)\<close>, kept as its hexadecimal string. Every call of the source comes
  after \<open>isValidObjectId\<close> has passed, so only the first equation is ever used.
\<close>

fun ObjectId :: "jsvalue \<Rightarrow> string" where
  "ObjectId (JStr s) = s"
| "ObjectId _ = []"

fun validateString :: "jsvalue \<Rightarrow> string \<Rightarrow> nat \<Rightarrow> nat \<Rightarrow> error + string" where
  "validateString Undefined fieldName minLength maxLength = Inl (Required fieldName)"
| "validateString Null fieldName minLength maxLength = Inl (Required fieldName)"
| "validateString (JStr s) fieldName minLength maxLength =
     (let trimmed = trim s in
      if length trimmed < minLength then Inl (TooShort fieldName minLength)
      else if length trimmed > maxLength then Inl (TooLong fieldName maxLength)
      else Inr trimmed)"
| "validateString _ fieldName minLength maxLength = Inl (MustBeString fieldName)"


section \<open>The collections\<close>

text \<open>
  Documents carry the fields the modelled functions read or write; \<open>id'\<close> is the
  \<^verbatim>\<open>_id\<close> of the document, an ObjectId kept as its hexadecimal string, and a
  \<^verbatim>\<open>Date\<close> is its number of milliseconds.
\<close>

record student =
  id' :: string
  firstName :: string
  lastName :: string

record question =
  id' :: string
  courseId :: string
  posterId :: string
  title :: string
  content :: string
  isAnonymous :: bool
  isResolved :: bool
  createdAt :: int
  updatedAt :: int

text \<open>A question as the aggregation pipelines return it, with the derived field.\<close>

record questionView = question +
  posterName :: "string option"

record response =
  id' :: string
  questionId :: string
  posterId :: string
  content :: string
  isAnonymous :: bool
  isHelpful :: bool
  createdAt :: int
  updatedAt :: int

record notification =
  id' :: string
  recipientId :: string
  questionId :: string
  senderId :: string
  type :: string
  message :: string
  isRead :: bool
  createdAt :: int

text \<open>
  The write commands sent to the storage layer, with the collection and the id of the
  filter (for an insertion, the id assigned). The database keeps them in the order sent,
  which makes the order of a cascade observable.
\<close>

datatype collection = STUDENTS | COURSES | QUESTIONS | RESPONSES | NOTIFICATIONS

datatype command =
    InsertOne collection string
  | FindOneAndUpdate collection string
  | DeleteOne collection string
  | DeleteMany collection string

record db =
  students :: "student list"
  questions :: "question list"
  responses :: "response list"
  notifications :: "notification list"
  commands :: "command list"

text \<open>
  What the driver's \<^verbatim>\<open>insertOne\<close> answers: whether the write was acknowledged and the id
  given to the document. A write that is not acknowledged is modelled as not stored.
\<close>

record insertResult =
  acknowledged :: bool
  insertedId :: string

text \<open>\<^verbatim>\<open>updateOne\<close>-style change of the first document matching a filter.\<close>

fun updateFirst :: "('a \<Rightarrow> bool) \<Rightarrow> ('a \<Rightarrow> 'a) \<Rightarrow> 'a list \<Rightarrow> 'a list" where
  "updateFirst P f [] = []"
| "updateFirst P f (x # xs) = (if P x then f x # xs else x # updateFirst P f xs)"

text \<open>\<^verbatim>\<open>deleteOne\<close>: the first document matching the filter goes.\<close>

fun deleteFirst :: "('a \<Rightarrow> bool) \<Rightarrow> 'a list \<Rightarrow> 'a list" where
  "deleteFirst P [] = []"
| "deleteFirst P (x # xs) = (if P x then xs else x # deleteFirst P xs)"

text \<open>\<^verbatim>\<open>deleteMany\<close>: every document matching the filter goes.\<close>

definition deleteAll :: "('a \<Rightarrow> bool) \<Rightarrow> 'a list \<Rightarrow> 'a list" where
  "deleteAll P xs = filter (\<lambda>x. \<not> P x) xs"


section \<open>data/questions.js\<close>

text \<open>
  The stages \<^verbatim>\<open>$lookup\<close>, \<^verbatim>\<open>$addFields\<close> and \<^verbatim>\<open>$project\<close> shared by the question
  pipelines: the poster's full name, \<^verbatim>\<open>Anonymous\<close> for an anonymous post, and
  \<^verbatim>\<open>null\<close> (\<open>None\<close>) when no student has the poster's id.
\<close>

definition populate :: "db \<Rightarrow> question \<Rightarrow> questionView" where
  "populate d q =
     question.extend q
       \<lparr>posterName =
          (if question.isAnonymous q then Some ''Anonymous''
           else (case find (\<lambda>s. student.id' s = question.posterId q) (students d) of
                   None \<Rightarrow> None
                 | Some s \<Rightarrow> Some (firstName s @ '' '' @ lastName s)))\<rparr>"

definition getQuestionById :: "jsvalue \<Rightarrow> db \<Rightarrow> error + questionView option" where
  "getQuestionById qid d =
     (if \<not> isValidObjectId qid then Inl (InvalidId ''question'')
      else Inr (map_option (populate d)
                  (find (\<lambda>q. question.id' q = ObjectId qid) (questions d))))"

text \<open>
  The \<^verbatim>\<open>switch\<close> of \<open>getQuestionsByCourseId\<close>: the value \<^verbatim>\<open>matchStage.isResolved\<close> must
  have, if any, and the direction of \<^verbatim>\<open>sortStage.createdAt\<close>.
\<close>

fun sortStages :: "jsvalue \<Rightarrow> bool option \<times> int" where
  "sortStages (JStr s) =
     (if s = ''newest'' then (None, - 1)
      else if s = ''oldest'' then (None, 1)
      else if s = ''answered'' then (Some True, - 1)
      else if s = ''unanswered'' then (Some False, - 1)
      else (None, - 1))"
| "sortStages _ = (None, - 1)"

text \<open>
  \<^verbatim>\<open>{ $sort: { createdAt: direction } }\<close>. The storage layer leaves the order of
  documents with equal keys open; the model keeps them in collection order.
\<close>

definition sortByCreatedAt :: "int \<Rightarrow> questionView list \<Rightarrow> questionView list" where
  "sortByCreatedAt direction qs = sort_key (\<lambda>q. direction * question.createdAt q) qs"

definition getQuestionsByCourseId :: "jsvalue \<Rightarrow> jsvalue \<Rightarrow> db \<Rightarrow> error + questionView list" where
  "getQuestionsByCourseId cid sortOption d =
     (if \<not> isValidObjectId cid then Inl (InvalidId ''course'')
      else
        let sortOption = (if sortOption = Undefined then JStr ''newest'' else sortOption);
            (resolved, direction) = sortStages sortOption;
            matchStage = (\<lambda>q. question.courseId q = ObjectId cid \<and>
                                (case resolved of None \<Rightarrow> True
                                 | Some b \<Rightarrow> question.isResolved q = b))
        in Inr (sortByCreatedAt direction (map (populate d) (filter matchStage (questions d)))))"

definition allowedUpdates_question :: "string list" where
  "allowedUpdates_question = [''title'', ''content'', ''isResolved'']"

text \<open>
  The loop over \<^verbatim>\<open>Object.entries(updates)\<close>, building \<^verbatim>\<open>updateFields\<close>; it stops at the
  first entry that throws.
\<close>

fun questionUpdateFields :: "jsobject \<Rightarrow> jsobject \<Rightarrow> error + jsobject" where
  "questionUpdateFields [] updateFields = Inr updateFields"
| "questionUpdateFields ((key, v) # rest) updateFields =
     (if key \<notin> set allowedUpdates_question then Inl (CannotUpdate key)
      else if key = ''title'' then
        (case validateString v ''Title'' 1 200 of
           Inl e \<Rightarrow> Inl e
         | Inr s \<Rightarrow> questionUpdateFields rest (updateFields @ [(key, JStr s)]))
      else if key = ''content'' then
        (case validateString v ''Content'' 1 2000 of
           Inl e \<Rightarrow> Inl e
         | Inr s \<Rightarrow> questionUpdateFields rest (updateFields @ [(key, JStr s)]))
      else if key = ''isResolved'' then
        (case v of
           JBool b \<Rightarrow> questionUpdateFields rest (updateFields @ [(key, v)])
         | _ \<Rightarrow> Inl (MustBeBoolean ''isResolved''))
      else questionUpdateFields rest updateFields)"

text \<open>One field of a \<^verbatim>\<open>$set\<close> document applied to a question.\<close>

fun setQuestionField :: "string \<times> jsvalue \<Rightarrow> question \<Rightarrow> question" where
  "setQuestionField (key, JStr s) q =
     (if key = ''title'' then q\<lparr>question.title := s\<rparr>
      else if key = ''content'' then q\<lparr>question.content := s\<rparr>
      else q)"
| "setQuestionField (key, JBool b) q =
     (if key = ''isResolved'' then q\<lparr>question.isResolved := b\<rparr> else q)"
| "setQuestionField (key, JNum t) q =
     (if key = ''updatedAt'' then q\<lparr>question.updatedAt := t\<rparr> else q)"
| "setQuestionField _ q = q"

definition updateQuestion :: "int \<Rightarrow> jsvalue \<Rightarrow> jsobject \<Rightarrow> db \<Rightarrow> (error + question) \<times> db" where
  "updateQuestion now qid updates d =
     (if \<not> isValidObjectId qid then (Inl (InvalidId ''question''), d)
      else if length updates = 0 then (Inl NoUpdates, d)
      else
        (case questionUpdateFields updates [] of
           Inl e \<Rightarrow> (Inl e, d)
         | Inr validated \<Rightarrow>
             let updateFields = validated @ [(''updatedAt'', JNum now)];
                 d' = d\<lparr>questions :=
                          updateFirst (\<lambda>q. question.id' q = ObjectId qid)
                            (fold setQuestionField updateFields) (questions d),
                        commands :=
                          commands d @ [FindOneAndUpdate QUESTIONS (ObjectId qid)]\<rparr>
             in (case find (\<lambda>q. question.id' q = ObjectId qid) (questions d') of
                   None \<Rightarrow> (Inl (NotFound ''Question''), d')
                 | Some result \<Rightarrow> (Inr result, d'))))"

definition deleteQuestion :: "jsvalue \<Rightarrow> db \<Rightarrow> (error + nat) \<times> db" where
  "deleteQuestion qid d =
     (if \<not> isValidObjectId qid then (Inl (InvalidId ''question''), d)
      else
        let d' = d\<lparr>questions :=
                     deleteFirst (\<lambda>q. question.id' q = ObjectId qid) (questions d),
                   commands := commands d @ [DeleteOne QUESTIONS (ObjectId qid)]\<rparr>;
            deletedCount = length (questions d) - length (questions d')
        in if deletedCount = 0 then (Inl (NotFound ''Question''), d')
           else (Inr deletedCount, d'))"


section \<open>data/responses.js\<close>

definition createResponse :: "int \<Rightarrow> insertResult \<Rightarrow> jsobject \<Rightarrow> db \<Rightarrow> (error + response) \<times> db" where
  "createResponse now result responseData d =
     (let qid = property responseData ''questionId'';
          pid = property responseData ''posterId'' in
      if \<not> isValidObjectId qid then (Inl (InvalidId ''question''), d)
      else if \<not> isValidObjectId pid then (Inl (InvalidId ''poster''), d)
      else
        (case validateString (property responseData ''content'') ''Content'' 1 1500 of
           Inl e \<Rightarrow> (Inl e, d)
         | Inr txt \<Rightarrow>
             (case (if property responseData ''isAnonymous'' \<noteq> Undefined
                    then property responseData ''isAnonymous'' else JBool False) of
                JBool anon \<Rightarrow>
                  let newResponse =
                        \<lparr>response.id' = insertedId result,
                         questionId = ObjectId qid,
                         posterId = ObjectId pid,
                         content = txt,
                         isAnonymous = anon,
                         isHelpful = False,
                         createdAt = now,
                         updatedAt = now\<rparr>;
                      d' = d\<lparr>responses :=
                               (if acknowledged result then responses d @ [newResponse]
                                else responses d),
                             commands := commands d @ [InsertOne RESPONSES (insertedId result)]\<rparr>
                  in if \<not> acknowledged result then (Inl (FailedToCreate ''response''), d')
                     else (Inr newResponse, d')
              | _ \<Rightarrow> (Inl (MustBeBoolean ''isAnonymous''), d))))"

definition getResponseById :: "jsvalue \<Rightarrow> db \<Rightarrow> error + response option" where
  "getResponseById rid d =
     (if \<not> isValidObjectId rid then Inl (InvalidId ''response'')
      else Inr (find (\<lambda>r. response.id' r = ObjectId rid) (responses d)))"

definition allowedUpdates_response :: "string list" where
  "allowedUpdates_response = [''content'', ''isHelpful'']"

fun responseUpdateFields :: "jsobject \<Rightarrow> jsobject \<Rightarrow> error + jsobject" where
  "responseUpdateFields [] updateFields = Inr updateFields"
| "responseUpdateFields ((key, v) # rest) updateFields =
     (if key \<notin> set allowedUpdates_response then Inl (CannotUpdate key)
      else if key = ''content'' then
        (case validateString v ''Content'' 1 1500 of
           Inl e \<Rightarrow> Inl e
         | Inr s \<Rightarrow> responseUpdateFields rest (updateFields @ [(key, JStr s)]))
      else if key = ''isHelpful'' then
        (case v of
           JBool b \<Rightarrow> responseUpdateFields rest (updateFields @ [(key, v)])
         | _ \<Rightarrow> Inl (MustBeBoolean ''isHelpful''))
      else responseUpdateFields rest updateFields)"

fun setResponseField :: "string \<times> jsvalue \<Rightarrow> response \<Rightarrow> response" where
  "setResponseField (key, JStr s) r =
     (if key = ''content'' then r\<lparr>response.content := s\<rparr> else r)"
| "setResponseField (key, JBool b) r =
     (if key = ''isHelpful'' then r\<lparr>response.isHelpful := b\<rparr> else r)"
| "setResponseField (key, JNum t) r =
     (if key = ''updatedAt'' then r\<lparr>response.updatedAt := t\<rparr> else r)"
| "setResponseField _ r = r"

definition updateResponse :: "int \<Rightarrow> jsvalue \<Rightarrow> jsobject \<Rightarrow> db \<Rightarrow> (error + response) \<times> db" where
  "updateResponse now rid updates d =
     (if \<not> isValidObjectId rid then (Inl (InvalidId ''response''), d)
      else if length updates = 0 then (Inl NoUpdates, d)
      else
        (case responseUpdateFields updates [] of
           Inl e \<Rightarrow> (Inl e, d)
         | Inr validated \<Rightarrow>
             let updateFields = validated @ [(''updatedAt'', JNum now)];
                 d' = d\<lparr>responses :=
                          updateFirst (\<lambda>r. response.id' r = ObjectId rid)
                            (fold setResponseField updateFields) (responses d),
                        commands :=
                          commands d @ [FindOneAndUpdate RESPONSES (ObjectId rid)]\<rparr>
             in (case find (\<lambda>r. response.id' r = ObjectId rid) (responses d') of
                   None \<Rightarrow> (Inl (NotFound ''Response''), d')
                 | Some result \<Rightarrow> (Inr result, d'))))"

definition deleteResponse :: "jsvalue \<Rightarrow> db \<Rightarrow> (error + nat) \<times> db" where
  "deleteResponse rid d =
     (if \<not> isValidObjectId rid then (Inl (InvalidId ''response''), d)
      else
        let d' = d\<lparr>responses :=
                     deleteFirst (\<lambda>r. response.id' r = ObjectId rid) (responses d),
                   commands := commands d @ [DeleteOne RESPONSES (ObjectId rid)]\<rparr>;
            deletedCount = length (responses d) - length (responses d')
        in if deletedCount = 0 then (Inl (NotFound ''Response''), d')
           else (Inr deletedCount, d'))"

definition deleteResponsesByQuestionId :: "jsvalue \<Rightarrow> db \<Rightarrow> (error + nat) \<times> db" where
  "deleteResponsesByQuestionId qid d =
     (if \<not> isValidObjectId qid then (Inl (InvalidId ''question''), d)
      else
        let d' = d\<lparr>responses :=
                     deleteAll (\<lambda>r. response.questionId r = ObjectId qid) (responses d),
                   commands := commands d @ [DeleteMany RESPONSES (ObjectId qid)]\<rparr>
        in (Inr (length (responses d) - length (responses d')), d'))"


section \<open>data/notifications.js\<close>

definition createNotification :: "int \<Rightarrow> insertResult \<Rightarrow> jsobject \<Rightarrow> db \<Rightarrow> (error + notification) \<times> db" where
  "createNotification now result notificationData d =
     (let toId = property notificationData ''recipientId'';
          qid = property notificationData ''questionId'';
          fromId = property notificationData ''senderId'' in
      if \<not> isValidObjectId toId then (Inl (InvalidId ''recipient''), d)
      else if \<not> isValidObjectId qid then (Inl (InvalidId ''question''), d)
      else if \<not> isValidObjectId fromId then (Inl (InvalidId ''sender''), d)
      else
        (case validateString (property notificationData ''type'') ''Type'' 1 1000 of
           Inl e \<Rightarrow> (Inl e, d)
         | Inr ty \<Rightarrow>
             (case validateString (property notificationData ''message'') ''Message'' 1 1000 of
                Inl e \<Rightarrow> (Inl e, d)
              | Inr msg \<Rightarrow>
                  let newNotification =
                        \<lparr>notification.id' = insertedId result,
                         recipientId = ObjectId toId,
                         questionId = ObjectId qid,
                         senderId = ObjectId fromId,
                         type = ty,
                         message = msg,
                         isRead = False,
                         createdAt = now\<rparr>;
                      d' = d\<lparr>notifications :=
                               (if acknowledged result then notifications d @ [newNotification]
                                else notifications d),
                             commands :=
                               commands d @ [InsertOne NOTIFICATIONS (insertedId result)]\<rparr>
                  in if \<not> acknowledged result then (Inl (FailedToCreate ''notification''), d')
                     else (Inr newNotification, d'))))"

definition markNotificationAsRead :: "jsvalue \<Rightarrow> db \<Rightarrow> (error + notification) \<times> db" where
  "markNotificationAsRead nid d =
     (if \<not> isValidObjectId nid then (Inl (InvalidId ''notification''), d)
      else
        let d' = d\<lparr>notifications :=
                     updateFirst (\<lambda>n. notification.id' n = ObjectId nid)
                       (\<lambda>n. n\<lparr>notification.isRead := True\<rparr>) (notifications d),
                   commands :=
                     commands d @ [FindOneAndUpdate NOTIFICATIONS (ObjectId nid)]\<rparr>
        in (case find (\<lambda>n. notification.id' n = ObjectId nid) (notifications d') of
              None \<Rightarrow> (Inl (NotFound ''Notification''), d')
            | Some result \<Rightarrow> (Inr result, d')))"

definition deleteNotificationsByQuestionId :: "jsvalue \<Rightarrow> db \<Rightarrow> (error + nat) \<times> db" where
  "deleteNotificationsByQuestionId qid d =
     (if \<not> isValidObjectId qid then (Inl (InvalidId ''question''), d)
      else
        let d' = d\<lparr>notifications :=
                     deleteAll (\<lambda>n. notification.questionId n = ObjectId qid)
                       (notifications d),
                   commands := commands d @ [DeleteMany NOTIFICATIONS (ObjectId qid)]\<rparr>
        in (Inr (length (notifications d) - length (notifications d')), d'))"


section \<open>The routes\<close>

text \<open>
  A request as a handler sees it: the student of the session (absent when nobody is
  logged in), the path parameter, the body after the sanitizers of the validation chain,
  and \<open>bodyErrors\<close>, the errors found by the chain's standard validators (length, boolean,
  non-empty), which belong to a library. The custom validators of the chains call
  \<open>isValidObjectId\<close> and are modelled by \<open>customId\<close>.
\<close>

record sessionStudent =
  id' :: string
  firstName :: string
  lastName :: string
  email :: string

record request =
  session :: "sessionStudent option"
  params :: string
  body :: jsobject
  bodyErrors :: "string list"

datatype payload =
    ResponseDoc response
  | QuestionDoc question
  | NotificationDoc notification
  | Message string

text \<open>
  What a handler answers: \<open>Success status payload\<close> for
  \<^verbatim>\<open>res.status(status).json({ success: true, ... })\<close>, \<open>Failure status error\<close> for
  \<^verbatim>\<open>{ success: false, error }\<close>, \<open>ValidationFailed\<close> for the 400 answer carrying the
  validation errors, and \<open>Next e\<close> when the handler's \<^verbatim>\<open>catch\<close> hands a thrown error to
  the error middleware (which answers 500 for these errors).
\<close>

datatype reply =
    Success nat payload
  | Failure nat string
  | ValidationFailed "string list"
  | Next error

definition authenticationRequired :: string where
  "authenticationRequired = ''Authentication required. Please log in.''"

definition customId :: "string \<Rightarrow> jsvalue \<Rightarrow> string list" where
  "customId what v = (if \<not> isValidObjectId v then [''Invalid '' @ what @ '' ID''] else [])"

subsection \<open>routes/responses.js\<close>

text \<open>
  The destructuring \<^verbatim>\<open>const { questionId, content, isAnonymous = false } = req.body\<close>
  and the object \<^verbatim>\<open>responseData\<close> built from it and from the session.
\<close>

definition anonymousOrDefault :: "jsobject \<Rightarrow> jsvalue" where
  "anonymousOrDefault b =
     (if property b ''isAnonymous'' = Undefined then JBool False else property b ''isAnonymous'')"

definition responseDataOf :: "sessionStudent \<Rightarrow> jsobject \<Rightarrow> jsobject" where
  "responseDataOf student b =
     [(''questionId'', property b ''questionId''),
      (''posterId'', JStr (sessionStudent.id' student)),
      (''content'', property b ''content''),
      (''isAnonymous'', anonymousOrDefault b)]"

text \<open>
  \<^verbatim>\<open>POST /api/responses\<close>. \<open>inserted\<close> is the driver's answer to the insertion of the
  response, \<open>insertedN\<close> its answer to the insertion of the notification.
\<close>

definition post_responses :: "int \<Rightarrow> insertResult \<Rightarrow> insertResult \<Rightarrow> request \<Rightarrow> db \<Rightarrow> reply \<times> db" where
  "post_responses now inserted insertedN req d =
     (case session req of
        None \<Rightarrow> (Failure 401 authenticationRequired, d)
      | Some student \<Rightarrow>
          let errors = customId ''question'' (property (body req) ''questionId'') @ bodyErrors req in
          if errors \<noteq> [] then (ValidationFailed errors, d)
          else
            let qid = property (body req) ''questionId'';
                anon = anonymousOrDefault (body req);
                pid = sessionStudent.id' student;
                responseData = responseDataOf student (body req)
            in (case createResponse now inserted responseData d of
                  (Inl e, d1) \<Rightarrow> (Next e, d1)
                | (Inr newResponse, d1) \<Rightarrow>
                    let d2 =
                      (case getQuestionById qid d1 of
                         Inl notifError \<Rightarrow> d1
                       | Inr None \<Rightarrow> d1
                       | Inr (Some question) \<Rightarrow>
                           if question.posterId question \<noteq> pid then
                             let responderName =
                                   (if truthy anon then ''Someone''
                                    else sessionStudent.firstName student)
                             in snd (createNotification now insertedN
                                       [(''recipientId'', JStr (question.posterId question)),
                                        (''questionId'', qid),
                                        (''senderId'', JStr pid),
                                        (''type'', JStr ''new_response''),
                                        (''message'',
                                           JStr (responderName @ '' replied to your question: ''
                                                 @ [CHR 0x22] @ question.title question
                                                 @ [CHR 0x22]))]
                                       d1)
                           else d1)
                    in (Success 201 (ResponseDoc newResponse), d2)))"

text \<open>\<^verbatim>\<open>PATCH /api/responses/:responseId\<close>.\<close>

definition patch_responses :: "int \<Rightarrow> request \<Rightarrow> db \<Rightarrow> reply \<times> db" where
  "patch_responses now req d =
     (case session req of
        None \<Rightarrow> (Failure 401 authenticationRequired, d)
      | Some student \<Rightarrow>
          let errors = customId ''response'' (JStr (params req)) @ bodyErrors req in
          if errors \<noteq> [] then (ValidationFailed errors, d)
          else
            let rid = JStr (params req);
                updates = body req;
                currentUserId = sessionStudent.id' student
            in (case getResponseById rid d of
                  Inl e \<Rightarrow> (Next e, d)
                | Inr None \<Rightarrow> (Failure 404 ''Response not found'', d)
                | Inr (Some response) \<Rightarrow>
                    if response.posterId response \<noteq> currentUserId
                    then (Failure 403 ''You can only edit your own responses'', d)
                    else
                      (case updateResponse now rid updates d of
                         (Inl e, d1) \<Rightarrow> (Next e, d1)
                       | (Inr updatedResponse, d1) \<Rightarrow>
                           (Success 200 (ResponseDoc updatedResponse), d1))))"

text \<open>\<^verbatim>\<open>DELETE /api/responses/:responseId\<close>.\<close>

definition delete_responses :: "request \<Rightarrow> db \<Rightarrow> reply \<times> db" where
  "delete_responses req d =
     (case session req of
        None \<Rightarrow> (Failure 401 authenticationRequired, d)
      | Some student \<Rightarrow>
          let errors = customId ''response'' (JStr (params req)) in
          if errors \<noteq> [] then (ValidationFailed errors, d)
          else
            let rid = JStr (params req);
                currentUserId = sessionStudent.id' student
            in (case getResponseById rid d of
                  Inl e \<Rightarrow> (Next e, d)
                | Inr None \<Rightarrow> (Failure 404 ''Response not found'', d)
                | Inr (Some response) \<Rightarrow>
                    if response.posterId response \<noteq> currentUserId
                    then (Failure 403 ''You can only delete your own responses'', d)
                    else
                      (case deleteResponse rid d of
                         (Inl e, d1) \<Rightarrow> (Next e, d1)
                       | (Inr deleted, d1) \<Rightarrow>
                           (Success 200 (Message ''Response deleted successfully''), d1))))"

text \<open>\<^verbatim>\<open>PATCH /api/responses/:responseId/helpful\<close>.\<close>

definition patch_responses_helpful :: "int \<Rightarrow> insertResult \<Rightarrow> request \<Rightarrow> db \<Rightarrow> reply \<times> db" where
  "patch_responses_helpful now insertedN req d =
     (case session req of
        None \<Rightarrow> (Failure 401 authenticationRequired, d)
      | Some student \<Rightarrow>
          let errors = customId ''response'' (JStr (params req)) @ bodyErrors req in
          if errors \<noteq> [] then (ValidationFailed errors, d)
          else
            let rid = JStr (params req);
                helpful = property (body req) ''isHelpful'';
                currentUserId = sessionStudent.id' student
            in (case getResponseById rid d of
                  Inl e \<Rightarrow> (Next e, d)
                | Inr None \<Rightarrow> (Failure 404 ''Response not found'', d)
                | Inr (Some response) \<Rightarrow>
                    (case updateResponse now rid [(''isHelpful'', helpful)] d of
                       (Inl e, d1) \<Rightarrow> (Next e, d1)
                     | (Inr updatedResponse, d1) \<Rightarrow>
                         let d2 =
                           (if truthy helpful \<and> response.posterId response \<noteq> currentUserId then
                              (case getQuestionById (JStr (response.questionId response)) d1 of
                                 Inl notifError \<Rightarrow> d1
                               | Inr None \<Rightarrow> d1
                               | Inr (Some question) \<Rightarrow>
                                   snd (createNotification now insertedN
                                          [(''recipientId'', JStr (response.posterId response)),
                                           (''questionId'', JStr (response.questionId response)),
                                           (''senderId'', JStr currentUserId),
                                           (''type'', JStr ''helpful_mark''),
                                           (''message'',
                                              JStr (''Your response to '' @ [CHR 0x22]
                                                    @ question.title question @ [CHR 0x22]
                                                    @ '' was marked as helpful!''))]
                                          d1))
                            else d1)
                         in (Success 200 (ResponseDoc updatedResponse), d2))))"

subsection \<open>routes/questions.js\<close>

text \<open>\<^verbatim>\<open>PATCH /api/questions/:questionId\<close>.\<close>

definition patch_questions :: "int \<Rightarrow> request \<Rightarrow> db \<Rightarrow> reply \<times> db" where
  "patch_questions now req d =
     (case session req of
        None \<Rightarrow> (Failure 401 authenticationRequired, d)
      | Some student \<Rightarrow>
          let errors = customId ''question'' (JStr (params req)) @ bodyErrors req in
          if errors \<noteq> [] then (ValidationFailed errors, d)
          else
            let qid = JStr (params req);
                updates = body req;
                currentUserId = sessionStudent.id' student
            in (case getQuestionById qid d of
                  Inl e \<Rightarrow> (Next e, d)
                | Inr None \<Rightarrow> (Failure 404 ''Question not found'', d)
                | Inr (Some question) \<Rightarrow>
                    if question.posterId question \<noteq> currentUserId
                    then (Failure 403 ''You can only edit your own questions'', d)
                    else
                      (case updateQuestion now qid updates d of
                         (Inl e, d1) \<Rightarrow> (Next e, d1)
                       | (Inr updatedQuestion, d1) \<Rightarrow>
                           (Success 200 (QuestionDoc updatedQuestion), d1))))"

text \<open>\<^verbatim>\<open>DELETE /api/questions/:questionId\<close>, with its cascade.\<close>

definition delete_questions :: "request \<Rightarrow> db \<Rightarrow> reply \<times> db" where
  "delete_questions req d =
     (case session req of
        None \<Rightarrow> (Failure 401 authenticationRequired, d)
      | Some student \<Rightarrow>
          let errors = customId ''question'' (JStr (params req)) in
          if errors \<noteq> [] then (ValidationFailed errors, d)
          else
            let qid = JStr (params req);
                currentUserId = sessionStudent.id' student
            in (case getQuestionById qid d of
                  Inl e \<Rightarrow> (Next e, d)
                | Inr None \<Rightarrow> (Failure 404 ''Question not found'', d)
                | Inr (Some question) \<Rightarrow>
                    if question.posterId question \<noteq> currentUserId
                    then (Failure 403 ''You can only delete your own questions'', d)
                    else
                      (case deleteResponsesByQuestionId qid d of
                         (Inl e, d1) \<Rightarrow> (Next e, d1)
                       | (Inr deletedR, d1) \<Rightarrow>
                           (case deleteNotificationsByQuestionId qid d1 of
                              (Inl e, d2) \<Rightarrow> (Next e, d2)
                            | (Inr deletedN, d2) \<Rightarrow>
                                (case deleteQuestion qid d2 of
                                   (Inl e, d3) \<Rightarrow> (Next e, d3)
                                 | (Inr deletedQ, d3) \<Rightarrow>
                                     (Success 200 (Message ''Question deleted successfully''),
                                      d3))))))"

subsection \<open>routes/notifications.js\<close>

text \<open>\<^verbatim>\<open>PATCH /api/notifications/:notificationId/read\<close>.\<close>

definition patch_notifications_read :: "request \<Rightarrow> db \<Rightarrow> reply \<times> db" where
  "patch_notifications_read req d =
     (case session req of
        None \<Rightarrow> (Failure 401 authenticationRequired, d)
      | Some student \<Rightarrow>
          let errors = customId ''notification'' (JStr (params req)) in
          if errors \<noteq> [] then (ValidationFailed errors, d)
          else
            (case markNotificationAsRead (JStr (params req)) d of
               (Inl e, d1) \<Rightarrow> (Next e, d1)
             | (Inr updatedNotification, d1) \<Rightarrow>
                 (Success 200 (NotificationDoc updatedNotification), d1)))"


section \<open>A small forum, for worked instances\<close>

text \<open>
  Alice asks two questions and Bob one in course 1, Bob asks one in course 2; Bob and
  Carol answer Alice's first question (Carol's answer is already marked helpful), Alice
  answers Bob's.
\<close>

definition aliceId :: string where "aliceId = ''aaaaaaaaaaaaaaaaaaaaaaaa''"
definition bobId :: string where "bobId = ''bbbbbbbbbbbbbbbbbbbbbbbb''"
definition carolId :: string where "carolId = ''cccccccccccccccccccccccc''"
definition course1 :: string where "course1 = ''0000000000000000000000c1''"
definition course2 :: string where "course2 = ''0000000000000000000000c2''"
definition q1Id :: string where "q1Id = ''0000000000000000000000a1''"
definition q2Id :: string where "q2Id = ''0000000000000000000000a2''"
definition q3Id :: string where "q3Id = ''0000000000000000000000a3''"
definition q4Id :: string where "q4Id = ''0000000000000000000000a4''"
definition r1Id :: string where "r1Id = ''0000000000000000000000b1''"
definition r2Id :: string where "r2Id = ''0000000000000000000000b2''"
definition r3Id :: string where "r3Id = ''0000000000000000000000b3''"
definition n1Id :: string where "n1Id = ''0000000000000000000000d1''"
definition n2Id :: string where "n2Id = ''0000000000000000000000d2''"
definition freshId :: string where "freshId = ''0000000000000000000000e1''"
definition freshId2 :: string where "freshId2 = ''0000000000000000000000e2''"

definition alice :: sessionStudent where
  "alice = \<lparr>sessionStudent.id' = aliceId, firstName = ''Alice'', lastName = ''Adams'',
             email = ''aadams@stevens.edu''\<rparr>"

definition bob :: sessionStudent where
  "bob = \<lparr>sessionStudent.id' = bobId, firstName = ''Bob'', lastName = ''Brown'',
           email = ''bbrown@stevens.edu''\<rparr>"

definition carol :: sessionStudent where
  "carol = \<lparr>sessionStudent.id' = carolId, firstName = ''Carol'', lastName = ''Clark'',
             email = ''cclark@stevens.edu''\<rparr>"

definition q1 :: question where
  "q1 = \<lparr>question.id' = q1Id, courseId = course1, posterId = aliceId,
          title = ''How do I start?'', content = ''Where is the syllabus?'',
          isAnonymous = False, isResolved = False, createdAt = 100, updatedAt = 100\<rparr>"

definition q2 :: question where
  "q2 = \<lparr>question.id' = q2Id, courseId = course1, posterId = bobId,
          title = ''Exam date'', content = ''When is the midterm?'',
          isAnonymous = True, isResolved = True, createdAt = 200, updatedAt = 250\<rparr>"

definition q3 :: question where
  "q3 = \<lparr>question.id' = q3Id, courseId = course1, posterId = aliceId,
          title = ''Project teams'', content = ''How large may a team be?'',
          isAnonymous = False, isResolved = False, createdAt = 300, updatedAt = 300\<rparr>"

definition q4 :: question where
  "q4 = \<lparr>question.id' = q4Id, courseId = course2, posterId = bobId,
          title = ''Office hours'', content = ''Are they online?'',
          isAnonymous = False, isResolved = False, createdAt = 150, updatedAt = 150\<rparr>"

definition r1 :: response where
  "r1 = \<lparr>response.id' = r1Id, questionId = q1Id, posterId = bobId,
          content = ''See the course page.'', isAnonymous = False, isHelpful = False,
          createdAt = 110, updatedAt = 110\<rparr>"

definition r2 :: response where
  "r2 = \<lparr>response.id' = r2Id, questionId = q1Id, posterId = carolId,
          content = ''It is pinned.'', isAnonymous = False, isHelpful = True,
          createdAt = 120, updatedAt = 130\<rparr>"

definition r3 :: response where
  "r3 = \<lparr>response.id' = r3Id, questionId = q2Id, posterId = aliceId,
          content = ''In week seven.'', isAnonymous = False, isHelpful = False,
          createdAt = 210, updatedAt = 210\<rparr>"

definition n1 :: notification where
  "n1 = \<lparr>notification.id' = n1Id, recipientId = aliceId, questionId = q1Id,
          senderId = bobId, type = ''new_response'',
          message = ''Bob replied to your question'', isRead = False, createdAt = 110\<rparr>"

definition n2 :: notification where
  "n2 = \<lparr>notification.id' = n2Id, recipientId = bobId, questionId = q2Id,
          senderId = aliceId, type = ''new_response'',
          message = ''Alice replied to your question'', isRead = False, createdAt = 210\<rparr>"

definition forum :: db where
  "forum = \<lparr>students =
               [\<lparr>student.id' = aliceId, firstName = ''Alice'', lastName = ''Adams''\<rparr>,
                \<lparr>student.id' = bobId, firstName = ''Bob'', lastName = ''Brown''\<rparr>,
                \<lparr>student.id' = carolId, firstName = ''Carol'', lastName = ''Clark''\<rparr>],
             questions = [q1, q2, q3, q4],
             responses = [r1, r2, r3],
             notifications = [n1, n2],
             commands = []\<rparr>"


section \<open>Finding, changing and deleting the first match\<close>

lemma find_first:
  "\<forall>x \<in> set xs. \<not> P x \<Longrightarrow> P y \<Longrightarrow> find P (xs @ y # ys) = Some y"
  by (induction xs) auto

lemma updateFirst_first:
  "\<forall>x \<in> set xs. \<not> P x \<Longrightarrow> P y \<Longrightarrow> updateFirst P f (xs @ y # ys) = xs @ f y # ys"
  by (induction xs) auto

lemma deleteFirst_first:
  "\<forall>x \<in> set xs. \<not> P x \<Longrightarrow> P y \<Longrightarrow> deleteFirst P (xs @ y # ys) = xs @ ys"
  by (induction xs) auto



section \<open>Field allow-list of the stores\<close>

lemma validateString_error_kind:
  "validateString v fieldName lo hi = Inl e \<Longrightarrow> kindOf e = InvalidInput"
  by (cases v) (auto simp: Let_def split: if_splits)

lemma questionUpdateFields_unlisted:
  "\<exists>k \<in> set (map fst updates). k \<notin> set allowedUpdates_question \<Longrightarrow>
   \<exists>e. questionUpdateFields updates acc = Inl e \<and> kindOf e = InvalidInput"
proof (induction updates arbitrary: acc)
  case Nil
  then show ?case by simp
next
  case (Cons kv updates)
  obtain key v where kv: "kv = (key, v)" by (cases kv)
  show ?case
  proof (cases "key \<in> set allowedUpdates_question")
    case False
    then show ?thesis by (simp add: kv)
  next
    case True
    with Cons.prems kv have rest: "\<exists>k \<in> set (map fst updates). k \<notin> set allowedUpdates_question"
      by auto
    note IH = Cons.IH [OF rest]
    from True consider "key = ''title''" | "key = ''content''" | "key = ''isResolved''"
      by (auto simp: allowedUpdates_question_def)
    then show ?thesis
    proof cases
      case 1
      show ?thesis
      proof (cases "validateString v ''Title'' 1 200")
        case (Inl e)
        then show ?thesis using True 1 validateString_error_kind [OF Inl] by (simp add: kv)
      next
        case (Inr s)
        then show ?thesis using True 1 IH [of "acc @ [(key, JStr s)]"] by (simp add: kv)
      qed
    next
      case 2
      show ?thesis
      proof (cases "validateString v ''Content'' 1 2000")
        case (Inl e)
        then show ?thesis using True 2 validateString_error_kind [OF Inl] by (simp add: kv)
      next
        case (Inr s)
        then show ?thesis using True 2 IH [of "acc @ [(key, JStr s)]"] by (simp add: kv)
      qed
    next
      case 3
      show ?thesis using True 3 IH [of "acc @ [(key, v)]"] by (cases v) (simp_all add: kv)
    qed
  qed
qed

lemma responseUpdateFields_unlisted:
  "\<exists>k \<in> set (map fst updates). k \<notin> set allowedUpdates_response \<Longrightarrow>
   \<exists>e. responseUpdateFields updates acc = Inl e \<and> kindOf e = InvalidInput"
proof (induction updates arbitrary: acc)
  case Nil
  then show ?case by simp
next
  case (Cons kv updates)
  obtain key v where kv: "kv = (key, v)" by (cases kv)
  show ?case
  proof (cases "key \<in> set allowedUpdates_response")
    case False
    then show ?thesis by (simp add: kv)
  next
    case True
    with Cons.prems kv have rest: "\<exists>k \<in> set (map fst updates). k \<notin> set allowedUpdates_response"
      by auto
    note IH = Cons.IH [OF rest]
    from True consider "key = ''content''" | "key = ''isHelpful''"
      by (auto simp: allowedUpdates_response_def)
    then show ?thesis
    proof cases
      case 1
      show ?thesis
      proof (cases "validateString v ''Content'' 1 1500")
        case (Inl e)
        then show ?thesis using True 1 validateString_error_kind [OF Inl] by (simp add: kv)
      next
        case (Inr s)
        then show ?thesis using True 1 IH [of "acc @ [(key, JStr s)]"] by (simp add: kv)
      qed
    next
      case 2
      show ?thesis using True 2 IH [of "acc @ [(key, v)]"] by (cases v) (simp_all add: kv)
    qed
  qed
qed

lemma updateQuestion_rejects:
  assumes "updates = [] \<or> (\<exists>k \<in> set (map fst updates). k \<notin> set allowedUpdates_question)"
  shows "\<exists>e. updateQuestion now qid updates d = (Inl e, d) \<and> kindOf e = InvalidInput"
proof (cases "isValidObjectId qid")
  case False
  then show ?thesis by (simp add: updateQuestion_def)
next
  case True
  show ?thesis
  proof (cases "updates = []")
    case True
    then show ?thesis using \<open>isValidObjectId qid\<close> by (simp add: updateQuestion_def)
  next
    case False
    with assms obtain e where "questionUpdateFields updates [] = Inl e" "kindOf e = InvalidInput"
      using questionUpdateFields_unlisted [of updates "[]"] by blast
    then show ?thesis using False \<open>isValidObjectId qid\<close> by (simp add: updateQuestion_def)
  qed
qed

lemma updateResponse_rejects:
  assumes "updates = [] \<or> (\<exists>k \<in> set (map fst updates). k \<notin> set allowedUpdates_response)"
  shows "\<exists>e. updateResponse now rid updates d = (Inl e, d) \<and> kindOf e = InvalidInput"
proof (cases "isValidObjectId rid")
  case False
  then show ?thesis by (simp add: updateResponse_def)
next
  case True
  show ?thesis
  proof (cases "updates = []")
    case True
    then show ?thesis using \<open>isValidObjectId rid\<close> by (simp add: updateResponse_def)
  next
    case False
    with assms obtain e where "responseUpdateFields updates [] = Inl e" "kindOf e = InvalidInput"
      using responseUpdateFields_unlisted [of updates "[]"] by blast
    then show ?thesis using False \<open>isValidObjectId rid\<close> by (simp add: updateResponse_def)
  qed
qed

text \<open>
  C8. Field allow-list enforcement: \<open>updateQuestion\<close> and \<open>updateResponse\<close>, called with
  an empty payload or with a payload holding a key outside the allow-list (title, content,
  isResolved for a question; content, isHelpful for a response), throw a validation
  error, whatever the other entries are, and hand back the database as it was: no
  document is modified (\<open>updatedAt\<close> included) and no write command is sent.
\<close>

theorem update_allow_list:
  "(updates = [] \<or> (\<exists>k \<in> set (map fst updates). k \<notin> set allowedUpdates_question)
      \<longrightarrow> (\<exists>e. updateQuestion now qid updates d = (Inl e, d) \<and> kindOf e = InvalidInput))
   \<and> (updates = [] \<or> (\<exists>k \<in> set (map fst updates). k \<notin> set allowedUpdates_response)
      \<longrightarrow> (\<exists>e. updateResponse now rid updates d = (Inl e, d) \<and> kindOf e = InvalidInput))"
proof (intro conjI impI)
  assume "updates = [] \<or> (\<exists>k \<in> set (map fst updates). k \<notin> set allowedUpdates_question)"
  then show "\<exists>e. updateQuestion now qid updates d = (Inl e, d) \<and> kindOf e = InvalidInput"
    by (rule updateQuestion_rejects)
next
  assume "updates = [] \<or> (\<exists>k \<in> set (map fst updates). k \<notin> set allowedUpdates_response)"
  then show "\<exists>e. updateResponse now rid updates d = (Inl e, d) \<and> kindOf e = InvalidInput"
    by (rule updateResponse_rejects)
qed

text \<open>
  An attempt to change \<open>posterId\<close> of Alice's first question and of Bob's answer,
  next to a valid new content.
\<close>

theorem update_allow_list_witness:
  "(\<exists>e. updateQuestion 500 (JStr q1Id) [(''content'', JStr ''new''), (''posterId'', JStr bobId)] forum
          = (Inl e, forum) \<and> kindOf e = InvalidInput)
   \<and> (\<exists>e. updateResponse 500 (JStr r1Id) [(''content'', JStr ''new''), (''posterId'', JStr bobId)] forum
          = (Inl e, forum) \<and> kindOf e = InvalidInput)"
  using update_allow_list [of "[(''content'', JStr ''new''), (''posterId'', JStr bobId)]"
                              500 "JStr q1Id" forum "JStr r1Id"]
  by (simp add: allowedUpdates_question_def allowedUpdates_response_def)



section \<open>Listing the questions of a course\<close>

lemma sorted_descending:
  fixes f :: "'a \<Rightarrow> int"
  shows "sorted (map (\<lambda>x. - 1 * f x) xs) \<Longrightarrow> sorted (rev (map f xs))"
  by (simp add: sorted_wrt_rev sorted_map sorted_wrt_map)

lemma sortByCreatedAt_oldest: "sorted (map question.createdAt (sortByCreatedAt 1 qs))"
  using sorted_sort_key [of "\<lambda>q. question.createdAt q" qs] by (simp add: sortByCreatedAt_def)

lemma sortByCreatedAt_newest: "sorted (rev (map question.createdAt (sortByCreatedAt (- 1) qs)))"
  unfolding sortByCreatedAt_def by (rule sorted_descending) (rule sorted_sort_key)

lemma mset_sortByCreatedAt: "mset (sortByCreatedAt direction qs) = mset qs"
  by (simp add: sortByCreatedAt_def)

lemma length_sortByCreatedAt: "length (sortByCreatedAt direction qs) = length qs"
  by (simp add: sortByCreatedAt_def)

lemma getQuestionsByCourseId_newest:
  "isValidObjectId (JStr c) \<Longrightarrow>
   getQuestionsByCourseId (JStr c) (JStr ''newest'') d =
     Inr (sortByCreatedAt (- 1) (map (populate d) (filter (\<lambda>q. question.courseId q = c) (questions d))))"
  by (simp add: getQuestionsByCourseId_def)

lemma getQuestionsByCourseId_oldest:
  "isValidObjectId (JStr c) \<Longrightarrow>
   getQuestionsByCourseId (JStr c) (JStr ''oldest'') d =
     Inr (sortByCreatedAt 1 (map (populate d) (filter (\<lambda>q. question.courseId q = c) (questions d))))"
  by (simp add: getQuestionsByCourseId_def)

lemma getQuestionsByCourseId_answered:
  "isValidObjectId (JStr c) \<Longrightarrow>
   getQuestionsByCourseId (JStr c) (JStr ''answered'') d =
     Inr (sortByCreatedAt (- 1) (map (populate d)
            (filter (\<lambda>q. question.courseId q = c \<and> question.isResolved q) (questions d))))"
  by (simp add: getQuestionsByCourseId_def)

lemma getQuestionsByCourseId_unanswered:
  "isValidObjectId (JStr c) \<Longrightarrow>
   getQuestionsByCourseId (JStr c) (JStr ''unanswered'') d =
     Inr (sortByCreatedAt (- 1) (map (populate d)
            (filter (\<lambda>q. question.courseId q = c \<and> \<not> question.isResolved q) (questions d))))"
  by (simp add: getQuestionsByCourseId_def)

lemma sortStages_unknown:
  "v \<notin> {JStr ''newest'', JStr ''oldest'', JStr ''answered'', JStr ''unanswered''} \<Longrightarrow>
   sortStages v = (None, - 1)"
  by (cases v) auto

lemma getQuestionsByCourseId_unknown:
  assumes "v \<notin> {JStr ''newest'', JStr ''oldest'', JStr ''answered'', JStr ''unanswered''}"
  shows "getQuestionsByCourseId cid v d = getQuestionsByCourseId cid (JStr ''newest'') d"
proof (cases "v = Undefined")
  case True
  then show ?thesis by (simp add: getQuestionsByCourseId_def)
next
  case False
  then show ?thesis using sortStages_unknown [OF assms] by (simp add: getQuestionsByCourseId_def)
qed

lemma length_filter_split:
  "length (filter (\<lambda>q. P q \<and> R q) xs) + length (filter (\<lambda>q. P q \<and> \<not> R q) xs) = length (filter P xs)"
  by (induction xs) auto

lemma length_populated_split:
  "length (map (populate d) (filter (\<lambda>q. question.courseId q = c \<and> question.isResolved q) qs))
   + length (map (populate d) (filter (\<lambda>q. question.courseId q = c \<and> \<not> question.isResolved q) qs))
   = length (map (populate d) (filter (\<lambda>q. question.courseId q = c) qs))"
  using length_filter_split [of "\<lambda>q. question.courseId q = c" question.isResolved qs] by simp

text \<open>
  C7. Listing the questions of a course: \<open>oldest\<close> gives all of them by ascending
  \<open>createdAt\<close>, \<open>newest\<close> all of them by descending \<open>createdAt\<close>; \<open>answered\<close> gives exactly
  the resolved ones and \<open>unanswered\<close> exactly the unresolved ones, both by descending
  \<open>createdAt\<close>, so that their sizes add up to the size of the course; every other sort
  value (a missing one included) gives what \<open>newest\<close> gives.
\<close>

theorem listForCourse_sorting:
  assumes "isValidObjectId (JStr c)"
  shows "\<exists>newest oldest answered unanswered.
           getQuestionsByCourseId (JStr c) (JStr ''newest'') d = Inr newest
         \<and> getQuestionsByCourseId (JStr c) (JStr ''oldest'') d = Inr oldest
         \<and> getQuestionsByCourseId (JStr c) (JStr ''answered'') d = Inr answered
         \<and> getQuestionsByCourseId (JStr c) (JStr ''unanswered'') d = Inr unanswered
         \<and> sorted (map question.createdAt oldest)
         \<and> sorted (rev (map question.createdAt newest))
         \<and> sorted (rev (map question.createdAt answered))
         \<and> sorted (rev (map question.createdAt unanswered))
         \<and> mset oldest
             = mset (map (populate d) (filter (\<lambda>q. question.courseId q = c) (questions d)))
         \<and> mset newest
             = mset (map (populate d) (filter (\<lambda>q. question.courseId q = c) (questions d)))
         \<and> mset answered
             = mset (map (populate d)
                 (filter (\<lambda>q. question.courseId q = c \<and> question.isResolved q) (questions d)))
         \<and> mset unanswered
             = mset (map (populate d)
                 (filter (\<lambda>q. question.courseId q = c \<and> \<not> question.isResolved q) (questions d)))
         \<and> length answered + length unanswered = length newest
         \<and> (\<forall>v. v \<notin> {JStr ''newest'', JStr ''oldest'', JStr ''answered'', JStr ''unanswered''}
                \<longrightarrow> getQuestionsByCourseId (JStr c) v d = Inr newest)"
proof -
  let ?every = "map (populate d) (filter (\<lambda>q. question.courseId q = c) (questions d))"
  let ?resolved = "map (populate d)
      (filter (\<lambda>q. question.courseId q = c \<and> question.isResolved q) (questions d))"
  let ?open = "map (populate d)
      (filter (\<lambda>q. question.courseId q = c \<and> \<not> question.isResolved q) (questions d))"
  have newest: "getQuestionsByCourseId (JStr c) (JStr ''newest'') d = Inr (sortByCreatedAt (- 1) ?every)"
    by (rule getQuestionsByCourseId_newest [OF assms])
  have oldest: "getQuestionsByCourseId (JStr c) (JStr ''oldest'') d = Inr (sortByCreatedAt 1 ?every)"
    by (rule getQuestionsByCourseId_oldest [OF assms])
  have answered: "getQuestionsByCourseId (JStr c) (JStr ''answered'') d = Inr (sortByCreatedAt (- 1) ?resolved)"
    by (rule getQuestionsByCourseId_answered [OF assms])
  have unanswered: "getQuestionsByCourseId (JStr c) (JStr ''unanswered'') d = Inr (sortByCreatedAt (- 1) ?open)"
    by (rule getQuestionsByCourseId_unanswered [OF assms])
  have sizes: "length (sortByCreatedAt (- 1) ?resolved) + length (sortByCreatedAt (- 1) ?open)
                = length (sortByCreatedAt (- 1) ?every)"
    unfolding length_sortByCreatedAt by (rule length_populated_split)
  have unknown: "\<forall>v. v \<notin> {JStr ''newest'', JStr ''oldest'', JStr ''answered'', JStr ''unanswered''}
                \<longrightarrow> getQuestionsByCourseId (JStr c) v d = Inr (sortByCreatedAt (- 1) ?every)"
    using getQuestionsByCourseId_unknown [of _ "JStr c" d] newest by simp
  show ?thesis
    apply (rule exI [of _ "sortByCreatedAt (- 1) ?every"])
    apply (rule exI [of _ "sortByCreatedAt 1 ?every"])
    apply (rule exI [of _ "sortByCreatedAt (- 1) ?resolved"])
    apply (rule exI [of _ "sortByCreatedAt (- 1) ?open"])
    apply (intro conjI)
    subgoal by (rule newest)
    subgoal by (rule oldest)
    subgoal by (rule answered)
    subgoal by (rule unanswered)
    subgoal by (rule sortByCreatedAt_oldest)
    subgoal by (rule sortByCreatedAt_newest)
    subgoal by (rule sortByCreatedAt_newest)
    subgoal by (rule sortByCreatedAt_newest)
    subgoal by (rule mset_sortByCreatedAt)
    subgoal by (rule mset_sortByCreatedAt)
    subgoal by (rule mset_sortByCreatedAt)
    subgoal by (rule mset_sortByCreatedAt)
    subgoal by (rule sizes)
    subgoal by (rule unknown)
    done
qed

text \<open>Course 1 of the forum: three questions, asked at 100, 200 and 300.\<close>

theorem listForCourse_sorting_witness:
  "isValidObjectId (JStr course1) \<and>
   (\<exists>newest oldest answered unanswered.
           getQuestionsByCourseId (JStr course1) (JStr ''newest'') forum = Inr newest
         \<and> getQuestionsByCourseId (JStr course1) (JStr ''oldest'') forum = Inr oldest
         \<and> getQuestionsByCourseId (JStr course1) (JStr ''answered'') forum = Inr answered
         \<and> getQuestionsByCourseId (JStr course1) (JStr ''unanswered'') forum = Inr unanswered
         \<and> sorted (map question.createdAt oldest)
         \<and> sorted (rev (map question.createdAt newest))
         \<and> sorted (rev (map question.createdAt answered))
         \<and> sorted (rev (map question.createdAt unanswered))
         \<and> length answered + length unanswered = length newest)"
proof -
  have valid: "isValidObjectId (JStr course1)"
    by (simp add: course1_def isHexDigit_def)
  from listForCourse_sorting [OF valid, of forum] valid show ?thesis
    by (elim exE conjE) (intro conjI exI, assumption+)
qed

lemma forum_listing:
  "map_sum id (map question.id') (getQuestionsByCourseId (JStr course1) (JStr ''oldest'') forum)
     = Inr [q1Id, q2Id, q3Id]"
  "map_sum id (map question.id') (getQuestionsByCourseId (JStr course1) (JStr ''newest'') forum)
     = Inr [q3Id, q2Id, q1Id]"
  "map_sum id (map question.id') (getQuestionsByCourseId (JStr course1) (JStr ''answered'') forum)
     = Inr [q2Id]"
  "map_sum id (map question.id') (getQuestionsByCourseId (JStr course1) (JStr ''unanswered'') forum)
     = Inr [q3Id, q1Id]"
  by (simp_all add: getQuestionsByCourseId_def forum_def q1_def q2_def q3_def q4_def
      course1_def course2_def sortByCreatedAt_def populate_def isHexDigit_def question.defs)



section \<open>The stores on a document that is found\<close>

lemma getResponseById_found:
  assumes "isValidObjectId (JStr i)"
    and "responses d = xs @ r # ys"
    and "\<forall>x \<in> set xs. response.id' x \<noteq> i"
    and "response.id' r = i"
  shows "getResponseById (JStr i) d = Inr (Some r)"
proof -
  have "find (\<lambda>x. response.id' x = i) (xs @ r # ys) = Some r"
    using assms(3) assms(4) by (intro find_first) simp_all
  then show ?thesis using assms(1) assms(2) by (simp add: getResponseById_def)
qed

lemma getQuestionById_found:
  assumes "isValidObjectId (JStr i)"
    and "questions d = xs @ q # ys"
    and "\<forall>x \<in> set xs. question.id' x \<noteq> i"
    and "question.id' q = i"
  shows "getQuestionById (JStr i) d = Inr (Some (populate d q))"
proof -
  have "find (\<lambda>x. question.id' x = i) (xs @ q # ys) = Some q"
    using assms(3) assms(4) by (intro find_first) simp_all
  then show ?thesis using assms(1) assms(2) by (simp add: getQuestionById_def)
qed

lemma populate_fields:
  "question.posterId (populate d q) = question.posterId q"
  "question.title (populate d q) = question.title q"
  "question.id' (populate d q) = question.id' q"
  by (simp_all add: populate_def question.defs)

lemma updateResponse_isHelpful:
  assumes "isValidObjectId (JStr i)"
    and "responses d = xs @ r # ys"
    and "\<forall>x \<in> set xs. response.id' x \<noteq> i"
    and "response.id' r = i"
  shows "updateResponse now (JStr i) [(''isHelpful'', JBool b)] d =
           (Inr (r\<lparr>response.isHelpful := b, response.updatedAt := now\<rparr>),
            d\<lparr>responses := xs @ r\<lparr>response.isHelpful := b, response.updatedAt := now\<rparr> # ys,
              commands := commands d @ [FindOneAndUpdate RESPONSES i]\<rparr>)"
proof -
  let ?P = "\<lambda>x. response.id' x = i"
  let ?r' = "r\<lparr>response.isHelpful := b, response.updatedAt := now\<rparr>"
  have none: "\<forall>x \<in> set xs. \<not> ?P x" using assms(3) by simp
  have fields: "responseUpdateFields [(''isHelpful'', JBool b)] [] = Inr [(''isHelpful'', JBool b)]"
    by (simp add: allowedUpdates_response_def)
  have applied: "fold setResponseField ([(''isHelpful'', JBool b)] @ [(''updatedAt'', JNum now)]) r = ?r'"
    by simp
  have upd: "updateFirst ?P (fold setResponseField ([(''isHelpful'', JBool b)] @ [(''updatedAt'', JNum now)]))
               (responses d) = xs @ ?r' # ys"
    unfolding assms(2) applied [symmetric] by (rule updateFirst_first [OF none]) (rule assms(4))
  have "?P ?r'" using assms(4) by simp
  then have fnd: "find ?P (xs @ ?r' # ys) = Some ?r'"
    by (rule find_first [OF none])
  show ?thesis
    using assms(1) fields upd fnd by (simp add: updateResponse_def del: fold_simps append.simps)
qed

lemma deleteQuestion_found:
  assumes "isValidObjectId (JStr i)"
    and "questions d = xs @ q # ys"
    and "\<forall>x \<in> set xs. question.id' x \<noteq> i"
    and "question.id' q = i"
  shows "deleteQuestion (JStr i) d =
           (Inr 1, d\<lparr>questions := xs @ ys, commands := commands d @ [DeleteOne QUESTIONS i]\<rparr>)"
proof -
  have "deleteFirst (\<lambda>x. question.id' x = i) (xs @ q # ys) = xs @ ys"
    using assms(3) assms(4) by (intro deleteFirst_first) simp_all
  then show ?thesis using assms(1) assms(2) by (simp add: deleteQuestion_def)
qed

lemma length_trim: "length (trim s) \<le> length s"
proof -
  have "length (dropWhile isWhitespace (rev (dropWhile isWhitespace s)))
          \<le> length (rev (dropWhile isWhitespace s))"
    by (rule length_dropWhile_le)
  also have "\<dots> \<le> length s" by (simp add: length_dropWhile_le)
  finally show ?thesis by (simp add: trim_def)
qed

lemma trim_not_empty:
  assumes "c \<in> set s" and "\<not> isWhitespace c"
  shows "trim s \<noteq> []"
proof -
  have "c \<in> set (dropWhile isWhitespace s)"
    using assms by (induction s) auto
  then have "c \<in> set (rev (dropWhile isWhitespace s))" by simp
  then have "dropWhile isWhitespace (rev (dropWhile isWhitespace s)) \<noteq> []"
    using assms(2) by (auto simp: dropWhile_eq_Nil_conv)
  then show ?thesis by (simp add: trim_def)
qed

lemma trim_type_names:
  "trim ''new_response'' = ''new_response''"
  "trim ''helpful_mark'' = ''helpful_mark''"
  by (simp_all add: trim_def isWhitespace_def)

lemma validateString_ok:
  assumes "c \<in> set s" and "\<not> isWhitespace c" and "length s \<le> hi"
  shows "validateString (JStr s) fieldName 1 hi = Inr (trim s)"
proof -
  have "trim s \<noteq> []" using assms(1) assms(2) by (rule trim_not_empty)
  then have lower: "\<not> length (trim s) < 1" by (cases "trim s") simp_all
  have upper: "\<not> length (trim s) > hi" using length_trim [of s] assms(3) by simp
  show ?thesis using lower upper by (simp add: Let_def)
qed

lemma createNotification_stored:
  assumes "isValidObjectId (JStr toId)" and "isValidObjectId (JStr qid)"
    and "isValidObjectId (JStr fromId)"
    and "trim ty = ty" and "ty \<noteq> []" and "length ty \<le> 1000"
    and "c \<in> set msg" and "\<not> isWhitespace c" and "length msg \<le> 1000"
    and "acknowledged result"
  shows "createNotification now result
           [(''recipientId'', JStr toId), (''questionId'', JStr qid), (''senderId'', JStr fromId),
            (''type'', JStr ty), (''message'', JStr msg)] d
         = (Inr \<lparr>notification.id' = insertedId result, recipientId = toId, questionId = qid,
                  senderId = fromId, type = ty, message = trim msg, isRead = False,
                  createdAt = now\<rparr>,
            d\<lparr>notifications := notifications d @
                  [\<lparr>notification.id' = insertedId result, recipientId = toId, questionId = qid,
                    senderId = fromId, type = ty, message = trim msg, isRead = False,
                    createdAt = now\<rparr>],
              commands := commands d @ [InsertOne NOTIFICATIONS (insertedId result)]\<rparr>)"
proof -
  have t: "validateString (JStr ty) ''Type'' 1 1000 = Inr ty"
    using assms(4) assms(5) assms(6) by (cases ty) (simp_all add: Let_def)
  have m: "validateString (JStr msg) ''Message'' 1 1000 = Inr (trim msg)"
    using assms(7) assms(8) assms(9) by (rule validateString_ok)
  show ?thesis
    using assms(1) assms(2) assms(3) assms(10) t m
    by (simp add: createNotification_def property_def Let_def del: isValidObjectId.simps validateString.simps)
qed

lemma createNotification_elsewhere:
  "responses (snd (createNotification now result notificationData d)) = responses d"
  "questions (snd (createNotification now result notificationData d)) = questions d"
  "students (snd (createNotification now result notificationData d)) = students d"
  by (simp_all add: createNotification_def Let_def split: sum.splits)

lemma createResponse_Inr:
  assumes "createResponse now result responseData d = (Inr r, d1)"
  shows "isValidObjectId (property responseData ''questionId'')"
    and "isValidObjectId (property responseData ''posterId'')"
    and "acknowledged result"
    and "d1 = d\<lparr>responses := responses d @ [r],
                  commands := commands d @ [InsertOne RESPONSES (insertedId result)]\<rparr>"
  using assms
  by (auto simp add: createResponse_def Let_def simp del: isValidObjectId.simps validateString.simps
           split: if_splits sum.splits jsvalue.splits)

lemma post_responses_created:
  assumes "session req = Some a"
    and "fst (post_responses now inserted insertedN req d) = Success 201 (ResponseDoc newResponse)"
  shows "customId ''question'' (property (body req) ''questionId'') @ bodyErrors req = []"
    and "\<exists>d1. createResponse now inserted (responseDataOf a (body req)) d = (Inr newResponse, d1)"
proof -
  show errors: "customId ''question'' (property (body req) ''questionId'') @ bodyErrors req = []"
  proof (rule ccontr)
    assume "customId ''question'' (property (body req) ''questionId'') @ bodyErrors req \<noteq> []"
    then have "fst (post_responses now inserted insertedN req d)
                 = ValidationFailed (customId ''question'' (property (body req) ''questionId'')
                                     @ bodyErrors req)"
      using assms(1) by (simp add: post_responses_def Let_def)
    with assms(2) show False by simp
  qed
  obtain res d1 where run: "createResponse now inserted (responseDataOf a (body req)) d = (res, d1)"
    by (cases "createResponse now inserted (responseDataOf a (body req)) d")
  show "\<exists>d1. createResponse now inserted (responseDataOf a (body req)) d = (Inr newResponse, d1)"
  proof (cases res)
    case (Inl e)
    then have "fst (post_responses now inserted insertedN req d) = Next e"
      using assms(1) errors run by (simp add: post_responses_def Let_def)
    with assms(2) show ?thesis by simp
  next
    case (Inr r)
    then have "fst (post_responses now inserted insertedN req d) = Success 201 (ResponseDoc r)"
      using assms(1) errors run by (simp add: post_responses_def Let_def)
    with assms(2) have "r = newResponse" by simp
    with Inr run show ?thesis by simp
  qed
qed



section \<open>Unfolding the worked instances\<close>

lemmas forum_defs = forum_def q1_def q2_def q3_def q4_def r1_def r2_def r3_def n1_def n2_def
  alice_def bob_def carol_def aliceId_def bobId_def carolId_def course1_def course2_def
  q1Id_def q2Id_def q3Id_def q4Id_def r1Id_def r2Id_def r3Id_def n1Id_def n2Id_def
  freshId_def freshId2_def

lemmas route_defs = patch_responses_helpful_def customId_def getResponseById_def updateResponse_def
  getQuestionById_def createNotification_def property_def populate_def question.defs
  allowedUpdates_response_def isHexDigit_def trim_def isWhitespace_def Let_def

lemmas post_defs = post_responses_def responseDataOf_def anonymousOrDefault_def createResponse_def
  customId_def getQuestionById_def createNotification_def property_def populate_def question.defs
  isHexDigit_def trim_def isWhitespace_def Let_def



section \<open>Marking a notification read\<close>

lemma markNotificationAsRead_found:
  assumes "isValidObjectId (JStr i)"
    and "notifications d = xs @ n # ys"
    and "\<forall>m \<in> set xs. notification.id' m \<noteq> i"
    and "notification.id' n = i"
  shows "markNotificationAsRead (JStr i) d =
           (Inr (n\<lparr>notification.isRead := True\<rparr>),
            d\<lparr>notifications := xs @ n\<lparr>notification.isRead := True\<rparr> # ys,
              commands := commands d @ [FindOneAndUpdate NOTIFICATIONS i]\<rparr>)"
proof -
  let ?P = "\<lambda>m. notification.id' m = i"
  let ?f = "\<lambda>m. m\<lparr>notification.isRead := True\<rparr>"
  have none: "\<forall>m \<in> set xs. \<not> ?P m" using assms(3) by simp
  have upd: "updateFirst ?P ?f (notifications d) = xs @ ?f n # ys"
    unfolding assms(2) by (rule updateFirst_first [OF none]) (rule assms(4))
  have "?P (?f n)" using assms(4) by simp
  then have fnd: "find ?P (xs @ ?f n # ys) = Some (?f n)"
    by (rule find_first [OF none])
  show ?thesis
    using assms(1) upd fnd by (simp add: markNotificationAsRead_def)
qed

text \<open>
  C10. Marking a notification read compares nothing with its recipient: for every existing
  notification and every logged-in student, the recipient or not, the route answers 200
  with the notification, sets its \<open>isRead\<close> and changes no other field and no other
  notification; the answer is the same whoever is logged in.
\<close>

theorem markRead_any_student:
  assumes "session req = Some a"
    and "notifications d = xs @ n # ys"
    and "\<forall>m \<in> set xs. notification.id' m \<noteq> notification.id' n"
    and "params req = notification.id' n"
    and "isValidObjectId (JStr (notification.id' n))"
  shows "patch_notifications_read req d =
           (Success 200 (NotificationDoc (n\<lparr>notification.isRead := True\<rparr>)),
            d\<lparr>notifications := xs @ n\<lparr>notification.isRead := True\<rparr> # ys,
              commands := commands d @ [FindOneAndUpdate NOTIFICATIONS (notification.id' n)]\<rparr>)
         \<and> (\<forall>a'. patch_notifications_read (req\<lparr>session := Some a'\<rparr>) d
                   = patch_notifications_read req d)"
proof
  have "markNotificationAsRead (JStr (params req)) d =
           (Inr (n\<lparr>notification.isRead := True\<rparr>),
            d\<lparr>notifications := xs @ n\<lparr>notification.isRead := True\<rparr> # ys,
              commands := commands d @ [FindOneAndUpdate NOTIFICATIONS (notification.id' n)]\<rparr>)"
    unfolding assms(4) by (rule markNotificationAsRead_found [OF assms(5) assms(2) assms(3)]) simp
  then show "patch_notifications_read req d =
           (Success 200 (NotificationDoc (n\<lparr>notification.isRead := True\<rparr>)),
            d\<lparr>notifications := xs @ n\<lparr>notification.isRead := True\<rparr> # ys,
              commands := commands d @ [FindOneAndUpdate NOTIFICATIONS (notification.id' n)]\<rparr>)"
    using assms(1) assms(4) assms(5) by (simp add: patch_notifications_read_def customId_def)
next
  show "\<forall>a'. patch_notifications_read (req\<lparr>session := Some a'\<rparr>) d = patch_notifications_read req d"
    using assms(1) by (simp add: patch_notifications_read_def Let_def)
qed

text \<open>Carol marks read a notification addressed to Alice.\<close>

theorem markRead_any_student_witness:
  "sessionStudent.id' carol \<noteq> notification.recipientId n1
   \<and> patch_notifications_read \<lparr>session = Some carol, params = n1Id, body = [], bodyErrors = []\<rparr> forum
       = (Success 200 (NotificationDoc (n1\<lparr>notification.isRead := True\<rparr>)),
          forum\<lparr>notifications := [n1\<lparr>notification.isRead := True\<rparr>, n2],
                commands := [FindOneAndUpdate NOTIFICATIONS n1Id]\<rparr>)"
  using markRead_any_student [of "\<lparr>session = Some carol, params = n1Id, body = [], bodyErrors = []\<rparr>"
           carol forum "[]" n1 "[n2]"]
  by (simp add: forum_def n1_def n1Id_def carol_def carolId_def aliceId_def isHexDigit_def)



section \<open>Editing a response\<close>

text \<open>
  C9. The route that edits a response checks only that the logged-in student posted the
  response and then hands the whole body to \<open>updateResponse\<close>, whose allow-list holds
  \<open>isHelpful\<close>. So the poster of a response sets its \<open>isHelpful\<close> to any boolean through
  this route; the questions are not consulted, and nothing compares the student with the
  poster of the owning question.
\<close>

theorem poster_sets_isHelpful:
  assumes "session req = Some a"
    and "responses d = xs @ r # ys"
    and "\<forall>x \<in> set xs. response.id' x \<noteq> response.id' r"
    and "params req = response.id' r"
    and "isValidObjectId (JStr (response.id' r))"
    and "response.posterId r = sessionStudent.id' a"
    and "bodyErrors req = []"
  shows "patch_responses now req d =
           (case updateResponse now (JStr (response.id' r)) (body req) d of
              (Inl e, d1) \<Rightarrow> (Next e, d1)
            | (Inr updatedResponse, d1) \<Rightarrow> (Success 200 (ResponseDoc updatedResponse), d1))
         \<and> (body req = [(''isHelpful'', JBool b)] \<longrightarrow>
              patch_responses now req d =
                (Success 200 (ResponseDoc (r\<lparr>response.isHelpful := b, response.updatedAt := now\<rparr>)),
                 d\<lparr>responses :=
                      xs @ r\<lparr>response.isHelpful := b, response.updatedAt := now\<rparr> # ys,
                   commands := commands d @ [FindOneAndUpdate RESPONSES (response.id' r)]\<rparr>))"
proof -
  have found: "getResponseById (JStr (response.id' r)) d = Inr (Some r)"
    by (rule getResponseById_found [OF assms(5) assms(2) assms(3)]) simp
  have forward: "patch_responses now req d =
           (case updateResponse now (JStr (response.id' r)) (body req) d of
              (Inl e, d1) \<Rightarrow> (Next e, d1)
            | (Inr updatedResponse, d1) \<Rightarrow> (Success 200 (ResponseDoc updatedResponse), d1))"
    using assms(1) assms(4) assms(5) assms(6) assms(7) found
    by (simp add: patch_responses_def customId_def)
  have single: "updateResponse now (JStr (response.id' r)) [(''isHelpful'', JBool b)] d =
           (Inr (r\<lparr>response.isHelpful := b, response.updatedAt := now\<rparr>),
            d\<lparr>responses := xs @ r\<lparr>response.isHelpful := b, response.updatedAt := now\<rparr> # ys,
              commands := commands d @ [FindOneAndUpdate RESPONSES (response.id' r)]\<rparr>)"
    by (rule updateResponse_isHelpful [OF assms(5) assms(2) assms(3)]) simp
  show ?thesis using forward single by simp
qed

text \<open>
  Bob marks his own answer to Alice's question helpful.
\<close>

theorem poster_sets_isHelpful_witness:
  "sessionStudent.id' bob \<noteq> question.posterId q1
   \<and> response.questionId r1 = question.id' q1
   \<and> patch_responses 500
        \<lparr>session = Some bob, params = r1Id, body = [(''isHelpful'', JBool True)], bodyErrors = []\<rparr>
        forum
       = (Success 200 (ResponseDoc (r1\<lparr>response.isHelpful := True, response.updatedAt := 500\<rparr>)),
          forum\<lparr>responses := [r1\<lparr>response.isHelpful := True, response.updatedAt := 500\<rparr>, r2, r3],
                commands := [FindOneAndUpdate RESPONSES r1Id]\<rparr>)"
proof -
  let ?req = "\<lparr>session = Some bob, params = r1Id, body = [(''isHelpful'', JBool True)],
                bodyErrors = []\<rparr>"
  have logged: "session ?req = Some bob" by simp
  have stored: "responses forum = [] @ r1 # [r2, r3]" by (simp add: forum_def)
  have first: "\<forall>x \<in> set []. response.id' x \<noteq> response.id' r1" by simp
  have param: "params ?req = response.id' r1" by (simp add: r1_def)
  have valid: "isValidObjectId (JStr (response.id' r1))"
    by (simp add: r1_def r1Id_def isHexDigit_def)
  have owner: "response.posterId r1 = sessionStudent.id' bob" by (simp add: r1_def bob_def)
  have passed: "bodyErrors ?req = []" by simp
  have payload: "body ?req = [(''isHelpful'', JBool True)]" by simp
  have other: "sessionStudent.id' bob \<noteq> question.posterId q1"
    by (simp add: bob_def q1_def bobId_def aliceId_def)
  have owned: "response.questionId r1 = question.id' q1" by (simp add: r1_def q1_def)
  from poster_sets_isHelpful [OF logged stored first param valid owner passed,
        of 500 True, THEN conjunct2, THEN mp, OF payload]
  have "patch_responses 500 ?req forum
       = (Success 200 (ResponseDoc (r1\<lparr>response.isHelpful := True, response.updatedAt := 500\<rparr>)),
          forum\<lparr>responses := [r1\<lparr>response.isHelpful := True, response.updatedAt := 500\<rparr>, r2, r3],
                commands := [FindOneAndUpdate RESPONSES r1Id]\<rparr>)"
    by (simp add: forum_def r1_def)
  with other owned show ?thesis by simp
qed



section \<open>Ownership\<close>

text \<open>
  C3. Ownership: a logged-in student who did not post a stored question (or response)
  can neither update nor delete it. Deleting is refused with 403. Updating is refused
  with 403 whenever the request is past the field validation of the route, whatever the
  body holds then (unlisted keys, no key at all), and with the 400 of that validation when
  it is not. In each case the database is returned as it was, with no command sent.
\<close>

theorem non_poster_rejected:
  "(session req = Some a \<and> questions d = xs @ q # ys
      \<and> (\<forall>x \<in> set xs. question.id' x \<noteq> question.id' q)
      \<and> params req = question.id' q \<and> isValidObjectId (JStr (question.id' q))
      \<and> sessionStudent.id' a \<noteq> question.posterId q
    \<longrightarrow> patch_questions now req d =
          (if bodyErrors req = [] then Failure 403 ''You can only edit your own questions''
           else ValidationFailed (bodyErrors req), d)
      \<and> delete_questions req d = (Failure 403 ''You can only delete your own questions'', d))
   \<and> (session req = Some a \<and> responses d = xs' @ r # ys'
      \<and> (\<forall>x \<in> set xs'. response.id' x \<noteq> response.id' r)
      \<and> params req = response.id' r \<and> isValidObjectId (JStr (response.id' r))
      \<and> sessionStudent.id' a \<noteq> response.posterId r
    \<longrightarrow> patch_responses now req d =
          (if bodyErrors req = [] then Failure 403 ''You can only edit your own responses''
           else ValidationFailed (bodyErrors req), d)
      \<and> delete_responses req d = (Failure 403 ''You can only delete your own responses'', d))"
proof (intro conjI impI; elim conjE)
  assume *: "session req = Some a" "questions d = xs @ q # ys"
    "\<forall>x \<in> set xs. question.id' x \<noteq> question.id' q"
    "params req = question.id' q" "isValidObjectId (JStr (question.id' q))"
    "sessionStudent.id' a \<noteq> question.posterId q"
  have found: "getQuestionById (JStr (question.id' q)) d = Inr (Some (populate d q))"
    by (rule getQuestionById_found [OF *(5) *(2) *(3)]) simp
  show "patch_questions now req d =
          (if bodyErrors req = [] then Failure 403 ''You can only edit your own questions''
           else ValidationFailed (bodyErrors req), d)"
    using * found by (simp add: patch_questions_def customId_def populate_fields)
  show "delete_questions req d = (Failure 403 ''You can only delete your own questions'', d)"
    using * found by (simp add: delete_questions_def customId_def populate_fields)
next
  assume *: "session req = Some a" "responses d = xs' @ r # ys'"
    "\<forall>x \<in> set xs'. response.id' x \<noteq> response.id' r"
    "params req = response.id' r" "isValidObjectId (JStr (response.id' r))"
    "sessionStudent.id' a \<noteq> response.posterId r"
  have found: "getResponseById (JStr (response.id' r)) d = Inr (Some r)"
    by (rule getResponseById_found [OF *(5) *(2) *(3)]) simp
  show "patch_responses now req d =
          (if bodyErrors req = [] then Failure 403 ''You can only edit your own responses''
           else ValidationFailed (bodyErrors req), d)"
    using * found by (simp add: patch_responses_def customId_def)
  show "delete_responses req d = (Failure 403 ''You can only delete your own responses'', d)"
    using * found by (simp add: delete_responses_def customId_def)
qed

text \<open>
  Bob tries to take over Alice's question and to delete it; Alice sends an empty update
  to Bob's answer and tries to delete it.
\<close>

theorem non_poster_rejected_witness:
  "patch_questions 500
      \<lparr>session = Some bob, params = q1Id, body = [(''posterId'', JStr bobId)], bodyErrors = []\<rparr> forum
     = (Failure 403 ''You can only edit your own questions'', forum)
   \<and> delete_questions
      \<lparr>session = Some bob, params = q1Id, body = [(''posterId'', JStr bobId)], bodyErrors = []\<rparr> forum
     = (Failure 403 ''You can only delete your own questions'', forum)
   \<and> patch_responses 500
      \<lparr>session = Some alice, params = r1Id, body = [], bodyErrors = []\<rparr> forum
     = (Failure 403 ''You can only edit your own responses'', forum)
   \<and> delete_responses
      \<lparr>session = Some alice, params = r1Id, body = [], bodyErrors = []\<rparr> forum
     = (Failure 403 ''You can only delete your own responses'', forum)"
proof -
  let ?rq = "\<lparr>session = Some bob, params = q1Id, body = [(''posterId'', JStr bobId)],
               bodyErrors = []\<rparr>"
  let ?rr = "\<lparr>session = Some alice, params = r1Id, body = [], bodyErrors = []\<rparr>"
  have asked: "session ?rq = Some bob \<and> questions forum = [] @ q1 # [q2, q3, q4]
      \<and> (\<forall>x \<in> set []. question.id' x \<noteq> question.id' q1)
      \<and> params ?rq = question.id' q1 \<and> isValidObjectId (JStr (question.id' q1))
      \<and> sessionStudent.id' bob \<noteq> question.posterId q1"
    by (simp add: forum_def q1_def q1Id_def bob_def bobId_def aliceId_def isHexDigit_def)
  have answered: "session ?rr = Some alice \<and> responses forum = [] @ r1 # [r2, r3]
      \<and> (\<forall>x \<in> set []. response.id' x \<noteq> response.id' r1)
      \<and> params ?rr = response.id' r1 \<and> isValidObjectId (JStr (response.id' r1))
      \<and> sessionStudent.id' alice \<noteq> response.posterId r1"
    by (simp add: forum_def r1_def r1Id_def alice_def bobId_def aliceId_def isHexDigit_def)
  from non_poster_rejected [THEN conjunct1, THEN mp, OF asked, of 500]
       non_poster_rejected [THEN conjunct2, THEN mp, OF answered, of 500]
  show ?thesis by simp
qed

text \<open>
  Bob sends an empty title for Alice's question: the validation chain of the route
  reports it, and the answer is the 400 of the validation, not 403.
\<close>

theorem non_poster_invalid_body_counterexample:
  "sessionStudent.id' bob \<noteq> question.posterId q1
   \<and> patch_questions 500
        \<lparr>session = Some bob, params = q1Id, body = [(''title'', JStr [])],
         bodyErrors = [''Title must be 1-200 characters'']\<rparr> forum
       = (ValidationFailed [''Title must be 1-200 characters''], forum)"
  by (simp add: patch_questions_def customId_def isHexDigit_def q1Id_def q1_def bob_def
                bobId_def aliceId_def)



section \<open>Deleting a question\<close>

text \<open>
  C2. Cascade of a deletion: when the poster of a stored question deletes it, the route
  sends three commands in this order: delete every response of the question, delete every
  notification of the question, delete the question. Afterwards no response and no
  notification refers to the question, the question is no longer stored, and everything
  else is as before.
\<close>

theorem cascade_delete:
  assumes "session req = Some a"
    and "questions d = xs @ q # ys"
    and "\<forall>x \<in> set (xs @ ys). question.id' x \<noteq> question.id' q"
    and "params req = question.id' q"
    and "isValidObjectId (JStr (question.id' q))"
    and "question.posterId q = sessionStudent.id' a"
  shows "delete_questions req d =
           (Success 200 (Message ''Question deleted successfully''),
            d\<lparr>questions := xs @ ys,
              responses := filter (\<lambda>r. response.questionId r \<noteq> question.id' q) (responses d),
              notifications :=
                filter (\<lambda>n. notification.questionId n \<noteq> question.id' q) (notifications d),
              commands := commands d @
                [DeleteMany RESPONSES (question.id' q),
                 DeleteMany NOTIFICATIONS (question.id' q),
                 DeleteOne QUESTIONS (question.id' q)]\<rparr>)
         \<and> (\<forall>r \<in> set (responses (snd (delete_questions req d))).
                response.questionId r \<noteq> question.id' q)
         \<and> (\<forall>n \<in> set (notifications (snd (delete_questions req d))).
                notification.questionId n \<noteq> question.id' q)
         \<and> (\<forall>x \<in> set (questions (snd (delete_questions req d))).
                question.id' x \<noteq> question.id' q)"
proof -
  let ?i = "question.id' q"
  let ?d1 = "d\<lparr>responses := deleteAll (\<lambda>r. response.questionId r = ?i) (responses d),
               commands := commands d @ [DeleteMany RESPONSES ?i]\<rparr>"
  let ?d2 = "?d1\<lparr>notifications :=
                  deleteAll (\<lambda>n. notification.questionId n = ?i) (notifications ?d1),
                commands := commands ?d1 @ [DeleteMany NOTIFICATIONS ?i]\<rparr>"
  have first: "\<forall>x \<in> set xs. question.id' x \<noteq> ?i" using assms(3) by simp
  have found: "getQuestionById (JStr ?i) d = Inr (Some (populate d q))"
    by (rule getQuestionById_found [OF assms(5) assms(2) first]) simp
  have step1: "deleteResponsesByQuestionId (JStr ?i) d
                 = (Inr (length (responses d) - length (responses ?d1)), ?d1)"
    using assms(5) by (simp add: deleteResponsesByQuestionId_def Let_def)
  have step2: "deleteNotificationsByQuestionId (JStr ?i) ?d1
                 = (Inr (length (notifications ?d1) - length (notifications ?d2)), ?d2)"
    using assms(5) by (simp add: deleteNotificationsByQuestionId_def Let_def)
  have "questions ?d2 = xs @ q # ys" using assms(2) by simp
  then have step3: "deleteQuestion (JStr ?i) ?d2
                 = (Inr 1, ?d2\<lparr>questions := xs @ ys,
                              commands := commands ?d2 @ [DeleteOne QUESTIONS ?i]\<rparr>)"
    by (rule deleteQuestion_found [OF assms(5) _ first]) simp
  have result: "delete_questions req d =
           (Success 200 (Message ''Question deleted successfully''),
            d\<lparr>questions := xs @ ys,
              responses := filter (\<lambda>r. response.questionId r \<noteq> ?i) (responses d),
              notifications := filter (\<lambda>n. notification.questionId n \<noteq> ?i) (notifications d),
              commands := commands d @
                [DeleteMany RESPONSES ?i, DeleteMany NOTIFICATIONS ?i, DeleteOne QUESTIONS ?i]\<rparr>)"
    using assms(1) assms(4) assms(5) assms(6) found step1 step2 step3
    by (simp add: delete_questions_def customId_def populate_fields deleteAll_def)
  show ?thesis
    unfolding result using assms(3) by simp
qed

text \<open>
  Alice deletes her first question: both answers to it and the notification about it go.
\<close>

theorem cascade_delete_witness:
  "delete_questions \<lparr>session = Some alice, params = q1Id, body = [], bodyErrors = []\<rparr> forum
     = (Success 200 (Message ''Question deleted successfully''),
        forum\<lparr>questions := [q2, q3, q4], responses := [r3], notifications := [n2],
              commands := [DeleteMany RESPONSES q1Id, DeleteMany NOTIFICATIONS q1Id,
                           DeleteOne QUESTIONS q1Id]\<rparr>)"
proof -
  let ?req = "\<lparr>session = Some alice, params = q1Id, body = [], bodyErrors = []\<rparr>"
  have logged: "session ?req = Some alice" by simp
  have stored: "questions forum = [] @ q1 # [q2, q3, q4]" by (simp add: forum_def)
  have unique: "\<forall>x \<in> set ([] @ [q2, q3, q4]). question.id' x \<noteq> question.id' q1"
    by (simp add: q1_def q2_def q3_def q4_def q1Id_def q2Id_def q3Id_def q4Id_def)
  have param: "params ?req = question.id' q1" by (simp add: q1_def)
  have valid: "isValidObjectId (JStr (question.id' q1))"
    by (simp add: q1_def q1Id_def isHexDigit_def)
  have owner: "question.posterId q1 = sessionStudent.id' alice" by (simp add: q1_def alice_def)
  from cascade_delete [OF logged stored unique param valid owner, THEN conjunct1]
  show ?thesis
    by (simp add: forum_def q1_def r1_def r2_def r3_def n1_def n2_def q1Id_def q2Id_def)
qed



section \<open>Marking a response helpful\<close>

text \<open>
  C1. The route that marks a response helpful is documented as open to the poster of
  the question only. Here Carol, who posted neither Alice's question nor Bob's answer to
  it, marks that answer helpful: the route answers 200 and the flag is stored. The route
  never reads the poster of the question before it updates the response.
\<close>

theorem helpful_mark_by_third_party:
  "sessionStudent.id' carol \<noteq> question.posterId q1
   \<and> response.questionId r1 = question.id' q1
   \<and> fst (patch_responses_helpful 500 \<lparr>acknowledged = True, insertedId = freshId\<rparr>
            \<lparr>session = Some carol, params = r1Id, body = [(''isHelpful'', JBool True)],
             bodyErrors = []\<rparr> forum)
       = Success 200 (ResponseDoc (r1\<lparr>response.isHelpful := True, response.updatedAt := 500\<rparr>))
   \<and> responses (snd (patch_responses_helpful 500 \<lparr>acknowledged = True, insertedId = freshId\<rparr>
            \<lparr>session = Some carol, params = r1Id, body = [(''isHelpful'', JBool True)],
             bodyErrors = []\<rparr> forum))
       = [r1\<lparr>response.isHelpful := True, response.updatedAt := 500\<rparr>, r2, r3]"
  by (simp add: forum_defs route_defs)

text \<open>
  C4. Notifications of the helpful mark. The route answers 200 with the updated response.
  It adds no notification when the flag is set to false or when the logged-in student
  posted the response, and none when the owning question is not stored. When the flag is
  set to true (whatever it was before) by somebody else and the question is stored, with
  well-formed ids, a title within its 200 characters and an acknowledged insertion,
  exactly one notification is added: of type \<open>helpful_mark\<close>, unread, addressed to the
  poster of the response, sent by the logged-in student, about the owning question.
\<close>

theorem helpful_mark_notification:
  assumes "session req = Some a"
    and "bodyErrors req = []"
    and "responses d = xs @ r # ys"
    and "\<forall>x \<in> set xs. response.id' x \<noteq> response.id' r"
    and "params req = response.id' r"
    and "isValidObjectId (JStr (response.id' r))"
    and "property (body req) ''isHelpful'' = JBool b"
  shows "fst (patch_responses_helpful now insertedN req d)
           = Success 200 (ResponseDoc (r\<lparr>response.isHelpful := b, response.updatedAt := now\<rparr>))
       \<and> (\<not> b \<or> response.posterId r = sessionStudent.id' a \<longrightarrow>
             notifications (snd (patch_responses_helpful now insertedN req d)) = notifications d)
       \<and> (b \<and> response.posterId r \<noteq> sessionStudent.id' a
            \<and> find (\<lambda>q. question.id' q = response.questionId r) (questions d) = None \<longrightarrow>
             notifications (snd (patch_responses_helpful now insertedN req d)) = notifications d)
       \<and> (b \<and> response.posterId r \<noteq> sessionStudent.id' a
            \<and> find (\<lambda>q. question.id' q = response.questionId r) (questions d) = Some q
            \<and> length (question.title q) \<le> 200
            \<and> isValidObjectId (JStr (response.questionId r))
            \<and> isValidObjectId (JStr (response.posterId r))
            \<and> isValidObjectId (JStr (sessionStudent.id' a))
            \<and> acknowledged insertedN \<longrightarrow>
             (\<exists>n. notifications (snd (patch_responses_helpful now insertedN req d))
                     = notifications d @ [n]
                  \<and> notification.type n = ''helpful_mark''
                  \<and> notification.recipientId n = response.posterId r
                  \<and> notification.senderId n = sessionStudent.id' a
                  \<and> notification.questionId n = response.questionId r
                  \<and> notification.id' n = insertedId insertedN
                  \<and> \<not> notification.isRead n))"
proof -
  let ?r' = "r\<lparr>response.isHelpful := b, response.updatedAt := now\<rparr>"
  let ?d1 = "d\<lparr>responses := xs @ ?r' # ys,
               commands := commands d @ [FindOneAndUpdate RESPONSES (response.id' r)]\<rparr>"
  let ?run = "patch_responses_helpful now insertedN req d"
  have found: "getResponseById (JStr (response.id' r)) d = Inr (Some r)"
    by (rule getResponseById_found [OF assms(6) assms(3) assms(4)]) simp
  have updated: "updateResponse now (JStr (response.id' r)) [(''isHelpful'', JBool b)] d
                   = (Inr ?r', ?d1)"
    by (rule updateResponse_isHelpful [OF assms(6) assms(3) assms(4)]) simp
  note route = assms(1) assms(2) assms(5) assms(6) assms(7) found updated
  have reply: "fst ?run = Success 200 (ResponseDoc ?r')"
    using route by (simp add: patch_responses_helpful_def customId_def Let_def)
  have quiet: "notifications (snd ?run) = notifications d"
    if "\<not> b \<or> response.posterId r = sessionStudent.id' a"
    using route that by (auto simp add: patch_responses_helpful_def customId_def Let_def)
  have orphan: "notifications (snd ?run) = notifications d"
    if "b" "response.posterId r \<noteq> sessionStudent.id' a"
      "find (\<lambda>q. question.id' q = response.questionId r) (questions d) = None"
    using route that
    by (simp add: patch_responses_helpful_def customId_def Let_def getQuestionById_def)
  have notified: "\<exists>n. notifications (snd ?run) = notifications d @ [n]
                  \<and> notification.type n = ''helpful_mark''
                  \<and> notification.recipientId n = response.posterId r
                  \<and> notification.senderId n = sessionStudent.id' a
                  \<and> notification.questionId n = response.questionId r
                  \<and> notification.id' n = insertedId insertedN
                  \<and> \<not> notification.isRead n"
    if "b" "response.posterId r \<noteq> sessionStudent.id' a"
      "find (\<lambda>q. question.id' q = response.questionId r) (questions d) = Some q"
      "length (question.title q) \<le> 200"
      "isValidObjectId (JStr (response.questionId r))"
      "isValidObjectId (JStr (response.posterId r))"
      "isValidObjectId (JStr (sessionStudent.id' a))"
      "acknowledged insertedN"
  proof -
    let ?msg = "''Your response to '' @ [CHR 0x22] @ question.title q @ [CHR 0x22]
                  @ '' was marked as helpful!''"
    let ?n = "\<lparr>notification.id' = insertedId insertedN, recipientId = response.posterId r,
               questionId = response.questionId r, senderId = sessionStudent.id' a,
               type = ''helpful_mark'', message = trim ?msg, isRead = False, createdAt = now\<rparr>"
    have asked: "getQuestionById (JStr (response.questionId r)) ?d1 = Inr (Some (populate ?d1 q))"
      using that(3) that(5) by (simp add: getQuestionById_def)
    have "CHR ''!'' \<in> set ?msg" by simp
    moreover have "\<not> isWhitespace CHR ''!''" by (simp add: isWhitespace_def)
    moreover have "length ?msg \<le> 1000" using that(4) by simp
    ultimately have created:
      "createNotification now insertedN
         [(''recipientId'', JStr (response.posterId r)),
          (''questionId'', JStr (response.questionId r)),
          (''senderId'', JStr (sessionStudent.id' a)),
          (''type'', JStr ''helpful_mark''), (''message'', JStr ?msg)] ?d1
       = (Inr ?n, ?d1\<lparr>notifications := notifications ?d1 @ [?n],
                       commands := commands ?d1 @ [InsertOne NOTIFICATIONS (insertedId insertedN)]\<rparr>)"
      by (intro createNotification_stored that(5) that(6) that(7) that(8) trim_type_names) simp_all
    have "notifications (snd ?run) = notifications d @ [?n]"
      using route that(1) that(2) asked created
      by (simp add: patch_responses_helpful_def customId_def Let_def populate_fields
               del: isValidObjectId.simps)
    then show ?thesis by simp
  qed
  show ?thesis
    using reply quiet orphan notified by blast
qed

text \<open>
  Alice marks Bob's answer to her question helpful.
\<close>

theorem helpful_mark_notification_witness:
  "fst (patch_responses_helpful 500 \<lparr>acknowledged = True, insertedId = freshId\<rparr>
          \<lparr>session = Some alice, params = r1Id, body = [(''isHelpful'', JBool True)],
            bodyErrors = []\<rparr> forum)
     = Success 200 (ResponseDoc (r1\<lparr>response.isHelpful := True, response.updatedAt := 500\<rparr>))
   \<and> (\<exists>n. notifications (snd (patch_responses_helpful 500 \<lparr>acknowledged = True, insertedId = freshId\<rparr>
              \<lparr>session = Some alice, params = r1Id, body = [(''isHelpful'', JBool True)],
                bodyErrors = []\<rparr> forum))
            = notifications forum @ [n]
          \<and> notification.type n = ''helpful_mark''
          \<and> notification.recipientId n = bobId
          \<and> notification.senderId n = aliceId
          \<and> notification.questionId n = q1Id
          \<and> notification.id' n = freshId
          \<and> \<not> notification.isRead n)"
proof -
  let ?req = "\<lparr>session = Some alice, params = r1Id, body = [(''isHelpful'', JBool True)],
                bodyErrors = []\<rparr>"
  let ?ins = "\<lparr>acknowledged = True, insertedId = freshId\<rparr>"
  have logged: "session ?req = Some alice" by simp
  have passed: "bodyErrors ?req = []" by simp
  have stored: "responses forum = [] @ r1 # [r2, r3]" by (simp add: forum_def)
  have first: "\<forall>x \<in> set []. response.id' x \<noteq> response.id' r1" by simp
  have param: "params ?req = response.id' r1" by (simp add: r1_def)
  have valid: "isValidObjectId (JStr (response.id' r1))"
    by (simp add: r1_def r1Id_def isHexDigit_def)
  have payload: "property (body ?req) ''isHelpful'' = JBool True" by (simp add: property_def)
  have due: "True \<and> response.posterId r1 \<noteq> sessionStudent.id' alice
            \<and> find (\<lambda>q. question.id' q = response.questionId r1) (questions forum) = Some q1
            \<and> length (question.title q1) \<le> 200
            \<and> isValidObjectId (JStr (response.questionId r1))
            \<and> isValidObjectId (JStr (response.posterId r1))
            \<and> isValidObjectId (JStr (sessionStudent.id' alice))
            \<and> acknowledged ?ins"
    by (simp add: forum_def r1_def q1_def alice_def q1Id_def bobId_def aliceId_def isHexDigit_def)
  note marked = helpful_mark_notification [OF logged passed stored first param valid payload,
      of 500 ?ins q1]
  from marked [THEN conjunct1]
       marked [THEN conjunct2, THEN conjunct2, THEN conjunct2, THEN mp, OF due]
  show ?thesis by (simp add: r1_def alice_def)
qed

text \<open>
  Carol's answer is already marked helpful. Alice marks it helpful once more: nothing
  changes from false to true, and yet a notification is added.
\<close>

theorem helpful_again_counterexample:
  "response.isHelpful r2
   \<and> sessionStudent.id' alice \<noteq> response.posterId r2
   \<and> map notification.type (notifications forum) = [''new_response'', ''new_response'']
   \<and> map notification.type
        (notifications (snd (patch_responses_helpful 500 \<lparr>acknowledged = True, insertedId = freshId\<rparr>
            \<lparr>session = Some alice, params = r2Id, body = [(''isHelpful'', JBool True)],
             bodyErrors = []\<rparr> forum)))
       = [''new_response'', ''new_response'', ''helpful_mark'']"
  by (simp add: forum_defs route_defs)



section \<open>Posting a response\<close>

text \<open>
  C5. Notifications of a new response. Let a request have created a response (the route
  answered 201) to a stored question. If the logged-in student posted that question, no
  notification is added. If somebody else did, then (with a well-formed poster id, a
  title within its 200 characters, a first name within its 50 and an acknowledged
  insertion) exactly one notification is added: of type \<open>new_response\<close>, unread,
  addressed to the poster of the question, sent by the poster of the response, about that
  question.
\<close>

theorem new_response_notification:
  assumes "session req = Some a"
    and "fst (post_responses now inserted insertedN req d) = Success 201 (ResponseDoc newResponse)"
    and "property (body req) ''questionId'' = JStr qid"
    and "find (\<lambda>x. question.id' x = qid) (questions d) = Some q"
  shows "(question.posterId q = sessionStudent.id' a \<longrightarrow>
            notifications (snd (post_responses now inserted insertedN req d)) = notifications d)
       \<and> (question.posterId q \<noteq> sessionStudent.id' a
            \<and> isValidObjectId (JStr (question.posterId q))
            \<and> length (question.title q) \<le> 200
            \<and> length (sessionStudent.firstName a) \<le> 50
            \<and> acknowledged insertedN \<longrightarrow>
             (\<exists>n. notifications (snd (post_responses now inserted insertedN req d))
                     = notifications d @ [n]
                  \<and> notification.type n = ''new_response''
                  \<and> notification.recipientId n = question.posterId q
                  \<and> notification.senderId n = sessionStudent.id' a
                  \<and> notification.questionId n = qid
                  \<and> notification.id' n = insertedId insertedN
                  \<and> \<not> notification.isRead n))"
proof -
  let ?run = "post_responses now inserted insertedN req d"
  have errors: "customId ''question'' (property (body req) ''questionId'') @ bodyErrors req = []"
    by (rule post_responses_created(1) [OF assms(1) assms(2)])
  obtain d1 where created:
      "createResponse now inserted (responseDataOf a (body req)) d = (Inr newResponse, d1)"
    using post_responses_created(2) [OF assms(1) assms(2)] by blast
  have valid_q: "isValidObjectId (JStr qid)"
    using createResponse_Inr(1) [OF created] assms(3)
    by (simp add: responseDataOf_def property_def del: isValidObjectId.simps)
  have valid_a: "isValidObjectId (JStr (sessionStudent.id' a))"
    using createResponse_Inr(2) [OF created]
    by (simp add: responseDataOf_def property_def del: isValidObjectId.simps)
  have d1: "d1 = d\<lparr>responses := responses d @ [newResponse],
                    commands := commands d @ [InsertOne RESPONSES (insertedId inserted)]\<rparr>"
    by (rule createResponse_Inr(4) [OF created])
  have asked: "getQuestionById (JStr qid) d1 = Inr (Some (populate d1 q))"
    using valid_q assms(4) by (simp add: getQuestionById_def d1)
  note route = assms(1) assms(3) errors created asked
  have own: "notifications (snd ?run) = notifications d"
    if "question.posterId q = sessionStudent.id' a"
    using route that by (simp add: post_responses_def Let_def populate_fields d1)
  have notified: "\<exists>n. notifications (snd ?run) = notifications d @ [n]
                  \<and> notification.type n = ''new_response''
                  \<and> notification.recipientId n = question.posterId q
                  \<and> notification.senderId n = sessionStudent.id' a
                  \<and> notification.questionId n = qid
                  \<and> notification.id' n = insertedId insertedN
                  \<and> \<not> notification.isRead n"
    if "question.posterId q \<noteq> sessionStudent.id' a"
      "isValidObjectId (JStr (question.posterId q))"
      "length (question.title q) \<le> 200"
      "length (sessionStudent.firstName a) \<le> 50"
      "acknowledged insertedN"
  proof -
    let ?name = "if truthy (anonymousOrDefault (body req)) then ''Someone''
                 else sessionStudent.firstName a"
    let ?msg = "?name @ '' replied to your question: '' @ [CHR 0x22] @ question.title q @ [CHR 0x22]"
    let ?n = "\<lparr>notification.id' = insertedId insertedN, recipientId = question.posterId q,
               questionId = qid, senderId = sessionStudent.id' a,
               type = ''new_response'', message = trim ?msg, isRead = False, createdAt = now\<rparr>"
    have "CHR 0x22 \<in> set ?msg" by simp
    moreover have "\<not> isWhitespace (CHR 0x22)" by (simp add: isWhitespace_def)
    moreover have "length ?msg \<le> 1000" using that(3) that(4) by simp
    ultimately have stored:
      "createNotification now insertedN
         [(''recipientId'', JStr (question.posterId q)), (''questionId'', JStr qid),
          (''senderId'', JStr (sessionStudent.id' a)),
          (''type'', JStr ''new_response''), (''message'', JStr ?msg)] d1
       = (Inr ?n, d1\<lparr>notifications := notifications d1 @ [?n],
                      commands := commands d1 @ [InsertOne NOTIFICATIONS (insertedId insertedN)]\<rparr>)"
      by (intro createNotification_stored that(2) valid_q valid_a that(5) trim_type_names) simp_all
    have "notifications (snd ?run) = notifications d @ [?n]"
      using route that(1) stored
      by (simp add: post_responses_def Let_def populate_fields d1 del: isValidObjectId.simps)
    then show ?thesis by simp
  qed
  show ?thesis using own notified by blast
qed

text \<open>
  Bob answers Alice's question, then Alice answers it herself.
\<close>

theorem new_response_notification_witness:
  "(\<exists>n. notifications (snd (post_responses 500 \<lparr>acknowledged = True, insertedId = freshId\<rparr>
              \<lparr>acknowledged = True, insertedId = freshId2\<rparr>
              \<lparr>session = Some bob, params = [],
                body = [(''questionId'', JStr q1Id), (''content'', JStr ''Try the wiki.'')],
                bodyErrors = []\<rparr> forum))
            = notifications forum @ [n]
          \<and> notification.type n = ''new_response''
          \<and> notification.recipientId n = aliceId
          \<and> notification.senderId n = bobId
          \<and> notification.questionId n = q1Id
          \<and> notification.id' n = freshId2
          \<and> \<not> notification.isRead n)
   \<and> notifications (snd (post_responses 500 \<lparr>acknowledged = True, insertedId = freshId\<rparr>
              \<lparr>acknowledged = True, insertedId = freshId2\<rparr>
              \<lparr>session = Some alice, params = [],
                body = [(''questionId'', JStr q1Id), (''content'', JStr ''Found it.'')],
                bodyErrors = []\<rparr> forum))
       = notifications forum"
proof -
  let ?ins = "\<lparr>acknowledged = True, insertedId = freshId\<rparr>"
  let ?insN = "\<lparr>acknowledged = True, insertedId = freshId2\<rparr>"
  let ?byBob = "\<lparr>session = Some bob, params = [],
                  body = [(''questionId'', JStr q1Id), (''content'', JStr ''Try the wiki.'')],
                  bodyErrors = []\<rparr>"
  let ?byAlice = "\<lparr>session = Some alice, params = [],
                    body = [(''questionId'', JStr q1Id), (''content'', JStr ''Found it.'')],
                    bodyErrors = []\<rparr>"
  have asked: "find (\<lambda>x. question.id' x = q1Id) (questions forum) = Some q1"
    by (simp add: forum_def q1_def)
  have bob_created: "fst (post_responses 500 ?ins ?insN ?byBob forum)
      = Success 201 (ResponseDoc \<lparr>response.id' = freshId, questionId = q1Id, posterId = bobId,
          content = ''Try the wiki.'', isAnonymous = False, isHelpful = False,
          createdAt = 500, updatedAt = 500\<rparr>)"
    by (simp add: forum_defs post_defs)
  have alice_created: "fst (post_responses 500 ?ins ?insN ?byAlice forum)
      = Success 201 (ResponseDoc \<lparr>response.id' = freshId, questionId = q1Id, posterId = aliceId,
          content = ''Found it.'', isAnonymous = False, isHelpful = False,
          createdAt = 500, updatedAt = 500\<rparr>)"
    by (simp add: forum_defs post_defs)
  have due: "question.posterId q1 \<noteq> sessionStudent.id' bob
            \<and> isValidObjectId (JStr (question.posterId q1))
            \<and> length (question.title q1) \<le> 200
            \<and> length (sessionStudent.firstName bob) \<le> 50
            \<and> acknowledged ?insN"
    by (simp add: q1_def bob_def bobId_def aliceId_def isHexDigit_def)
  have own: "question.posterId q1 = sessionStudent.id' alice"
    by (simp add: q1_def alice_def)
  have q_bob: "property (body ?byBob) ''questionId'' = JStr q1Id" by (simp add: property_def)
  have q_alice: "property (body ?byAlice) ''questionId'' = JStr q1Id" by (simp add: property_def)
  from new_response_notification [of ?byBob bob 500 ?ins ?insN forum _ q1Id q1,
          OF _ bob_created q_bob asked, THEN conjunct2, THEN mp, OF _ due]
       new_response_notification [of ?byAlice alice 500 ?ins ?insN forum _ q1Id q1,
          OF _ alice_created q_alice asked, THEN conjunct1, THEN mp, OF _ own]
  show ?thesis by (simp add: q1_def bob_def)
qed



section \<open>Failure of the notification\<close>

text \<open>
  C6. A failing notification does not touch the primary operation. Once \<open>createResponse\<close>
  has stored the response, the route answers 201 with it and the response stays stored;
  once \<open>updateResponse\<close> has set the flag, the route answers 200 with the updated response
  and the update stays. Both hold for every database and every answer of the driver to
  the insertion of the notification: whether \<open>getQuestionById\<close> or \<open>createNotification\<close>
  throws or not, the error is never handed to the error middleware.
\<close>

theorem notification_failure_isolated:
  "(session req = Some a
      \<and> customId ''question'' (property (body req) ''questionId'') @ bodyErrors req = []
      \<and> createResponse now inserted (responseDataOf a (body req)) d = (Inr newResponse, d1)
    \<longrightarrow> fst (post_responses now inserted insertedN req d) = Success 201 (ResponseDoc newResponse)
      \<and> responses (snd (post_responses now inserted insertedN req d)) = responses d1
      \<and> newResponse \<in> set (responses d1))
   \<and> (session req = Some a
      \<and> customId ''response'' (JStr (params req)) @ bodyErrors req = []
      \<and> getResponseById (JStr (params req)) d = Inr (Some r)
      \<and> updateResponse now (JStr (params req)) [(''isHelpful'', property (body req) ''isHelpful'')] d
           = (Inr updatedResponse, d1)
    \<longrightarrow> fst (patch_responses_helpful now insertedN req d) = Success 200 (ResponseDoc updatedResponse)
      \<and> responses (snd (patch_responses_helpful now insertedN req d)) = responses d1)"
proof (intro conjI impI; elim conjE)
  assume *: "session req = Some a"
    "customId ''question'' (property (body req) ''questionId'') @ bodyErrors req = []"
    "createResponse now inserted (responseDataOf a (body req)) d = (Inr newResponse, d1)"
  show "fst (post_responses now inserted insertedN req d) = Success 201 (ResponseDoc newResponse)"
    using * by (simp add: post_responses_def Let_def)
  show "responses (snd (post_responses now inserted insertedN req d)) = responses d1"
    using * by (simp add: post_responses_def Let_def createNotification_elsewhere
                     split: sum.splits option.splits)
  show "newResponse \<in> set (responses d1)"
    using createResponse_Inr(4) [OF *(3)] by simp
next
  assume *: "session req = Some a"
    "customId ''response'' (JStr (params req)) @ bodyErrors req = []"
    "getResponseById (JStr (params req)) d = Inr (Some r)"
    "updateResponse now (JStr (params req)) [(''isHelpful'', property (body req) ''isHelpful'')] d
       = (Inr updatedResponse, d1)"
  show "fst (patch_responses_helpful now insertedN req d) = Success 200 (ResponseDoc updatedResponse)"
    using * by (simp add: patch_responses_helpful_def Let_def)
  show "responses (snd (patch_responses_helpful now insertedN req d)) = responses d1"
    using * by (simp add: patch_responses_helpful_def Let_def createNotification_elsewhere
                     split: sum.splits option.splits)
qed

text \<open>
  The storage layer does not acknowledge the notification: the insertion is sent,
  \<open>createNotification\<close> throws, no notification is stored, and both routes answer as if
  nothing had happened.
\<close>

theorem notification_failure_isolated_witness:
  "fst (post_responses 500 \<lparr>acknowledged = True, insertedId = freshId\<rparr>
          \<lparr>acknowledged = False, insertedId = freshId2\<rparr>
          \<lparr>session = Some bob, params = [],
            body = [(''questionId'', JStr q1Id), (''content'', JStr ''Try the wiki.'')],
            bodyErrors = []\<rparr> forum)
     = Success 201 (ResponseDoc \<lparr>response.id' = freshId, questionId = q1Id, posterId = bobId,
          content = ''Try the wiki.'', isAnonymous = False, isHelpful = False,
          createdAt = 500, updatedAt = 500\<rparr>)
   \<and> responses (snd (post_responses 500 \<lparr>acknowledged = True, insertedId = freshId\<rparr>
          \<lparr>acknowledged = False, insertedId = freshId2\<rparr>
          \<lparr>session = Some bob, params = [],
            body = [(''questionId'', JStr q1Id), (''content'', JStr ''Try the wiki.'')],
            bodyErrors = []\<rparr> forum))
     = [r1, r2, r3, \<lparr>response.id' = freshId, questionId = q1Id, posterId = bobId,
          content = ''Try the wiki.'', isAnonymous = False, isHelpful = False,
          createdAt = 500, updatedAt = 500\<rparr>]
   \<and> notifications (snd (post_responses 500 \<lparr>acknowledged = True, insertedId = freshId\<rparr>
          \<lparr>acknowledged = False, insertedId = freshId2\<rparr>
          \<lparr>session = Some bob, params = [],
            body = [(''questionId'', JStr q1Id), (''content'', JStr ''Try the wiki.'')],
            bodyErrors = []\<rparr> forum))
     = notifications forum
   \<and> commands (snd (post_responses 500 \<lparr>acknowledged = True, insertedId = freshId\<rparr>
          \<lparr>acknowledged = False, insertedId = freshId2\<rparr>
          \<lparr>session = Some bob, params = [],
            body = [(''questionId'', JStr q1Id), (''content'', JStr ''Try the wiki.'')],
            bodyErrors = []\<rparr> forum))
     = [InsertOne RESPONSES freshId, InsertOne NOTIFICATIONS freshId2]
   \<and> fst (patch_responses_helpful 500 \<lparr>acknowledged = False, insertedId = freshId2\<rparr>
          \<lparr>session = Some alice, params = r1Id, body = [(''isHelpful'', JBool True)],
            bodyErrors = []\<rparr> forum)
     = Success 200 (ResponseDoc (r1\<lparr>response.isHelpful := True, response.updatedAt := 500\<rparr>))
   \<and> responses (snd (patch_responses_helpful 500 \<lparr>acknowledged = False, insertedId = freshId2\<rparr>
          \<lparr>session = Some alice, params = r1Id, body = [(''isHelpful'', JBool True)],
            bodyErrors = []\<rparr> forum))
     = [r1\<lparr>response.isHelpful := True, response.updatedAt := 500\<rparr>, r2, r3]
   \<and> notifications (snd (patch_responses_helpful 500 \<lparr>acknowledged = False, insertedId = freshId2\<rparr>
          \<lparr>session = Some alice, params = r1Id, body = [(''isHelpful'', JBool True)],
            bodyErrors = []\<rparr> forum))
     = notifications forum"
proof -
  let ?ins = "\<lparr>acknowledged = True, insertedId = freshId\<rparr>"
  let ?lost = "\<lparr>acknowledged = False, insertedId = freshId2\<rparr>"
  let ?byBob = "\<lparr>session = Some bob, params = [],
                  body = [(''questionId'', JStr q1Id), (''content'', JStr ''Try the wiki.'')],
                  bodyErrors = []\<rparr>"
  let ?byAlice = "\<lparr>session = Some alice, params = r1Id, body = [(''isHelpful'', JBool True)],
                    bodyErrors = []\<rparr>"
  let ?new = "\<lparr>response.id' = freshId, questionId = q1Id, posterId = bobId,
          content = ''Try the wiki.'', isAnonymous = False, isHelpful = False,
          createdAt = 500, updatedAt = 500\<rparr>"
  let ?r1' = "r1\<lparr>response.isHelpful := True, response.updatedAt := 500\<rparr>"
  have posted: "session ?byBob = Some bob
      \<and> customId ''question'' (property (body ?byBob) ''questionId'') @ bodyErrors ?byBob = []
      \<and> createResponse 500 ?ins (responseDataOf bob (body ?byBob)) forum
          = (Inr ?new, forum\<lparr>responses := [r1, r2, r3, ?new],
                             commands := [InsertOne RESPONSES freshId]\<rparr>)"
    by (simp add: forum_defs post_defs)
  have marked: "session ?byAlice = Some alice
      \<and> customId ''response'' (JStr (params ?byAlice)) @ bodyErrors ?byAlice = []
      \<and> getResponseById (JStr (params ?byAlice)) forum = Inr (Some r1)
      \<and> updateResponse 500 (JStr (params ?byAlice))
            [(''isHelpful'', property (body ?byAlice) ''isHelpful'')] forum
          = (Inr ?r1', forum\<lparr>responses := [?r1', r2, r3],
                             commands := [FindOneAndUpdate RESPONSES r1Id]\<rparr>)"
    by (simp add: forum_defs route_defs)
  have lost_post: "notifications (snd (post_responses 500 ?ins ?lost ?byBob forum)) = notifications forum
      \<and> commands (snd (post_responses 500 ?ins ?lost ?byBob forum))
          = [InsertOne RESPONSES freshId, InsertOne NOTIFICATIONS freshId2]"
    by (simp add: forum_defs post_defs)
  have lost_mark: "notifications (snd (patch_responses_helpful 500 ?lost ?byAlice forum))
      = notifications forum"
    by (simp add: forum_defs route_defs)
  from notification_failure_isolated [THEN conjunct1, THEN mp, OF posted, of ?lost]
       notification_failure_isolated [THEN conjunct2, THEN mp, OF marked, of ?lost]
       lost_post lost_mark
  show ?thesis by simp
qed


end
